theory Spec2Isabelle
  imports Complex_Main "HOL-Library.Log_Nat"
begin

section \<open>Data model\<close>

text \<open>
  The marketplace backend keeps its documents in collections of a document store.
  Every document carries an \<open>_id\<close>; a collection is modelled as the list of its
  documents in insertion order, so that \<open>findOne\<close> returns the first match.
  A JavaScript number is modelled by the rational it denotes. The checkout handlers,
  which round amounts to cents, compute in IEEE double arithmetic (section Numbers);
  the sums of earnings and the means of ratings are taken exactly. Dates are
  milliseconds since the epoch; strings stay strings.
\<close>

type_synonym object_id = nat
type_synonym date = int

text \<open>A failed request: \<open>res.status(code).json({ message })\<close>.\<close>

datatype error = HttpError nat string

subsection \<open>Notification (models/Notification.js)\<close>

record notification =
  n_recipient :: object_id
  n_sender :: "object_id option"
  n_type :: string
  n_title :: string
  n_orderId :: "object_id option"

text \<open>The \<open>enum\<close> of the schema path \<open>type\<close>.\<close>

definition notification_types :: "string list" where
  "notification_types =
     [''new_order'', ''order_delivered'', ''order_completed'', ''order_cancelled'',
      ''revision_requested'', ''new_message'', ''review_received'', ''payment_received'',
      ''gig_approved'', ''gig_rejected'', ''custom_offer'', ''system'']"

subsection \<open>Review (models/Review.js)\<close>

record review =
  r_order :: object_id
  r_gig :: "object_id option"
  r_reviewer :: object_id
  r_reviewee :: object_id
  r_rating :: rat
  r_comment :: string

subsection \<open>Gig and User (models/Gig.js, models/User.js)\<close>

record package_details =
  pd_title :: string
  pd_price :: rat
  pd_deliveryTime :: int
  pd_revisions :: "rat option"

record gig =
  g_id :: object_id
  g_freelancer :: object_id
  g_pricing :: "string \<rightharpoonup> package_details"
  g_rating :: rat
  g_totalReviews :: nat
  g_totalOrders :: nat
  g_isActive :: bool
  g_isPaused :: bool

record user =
  u_id :: object_id
  u_username :: string
  u_rating :: rat
  u_totalReviews :: nat
  u_totalEarnings :: rat
  u_completedOrders :: nat

subsection \<open>Conversation (models/Conversation.js)\<close>

record conversation =
  c_id :: object_id
  c_participants :: "object_id list"
  c_order :: "object_id option"
  c_gig :: "object_id option"

subsection \<open>Order (models/Order.js)\<close>

record delivery =
  dl_message :: string
  dl_files :: "string list"
  dl_deliveredAt :: date

record revision =
  rv_message :: string
  rv_requestedAt :: date

record cancellation =
  cn_reason :: string
  cn_requestedBy :: object_id
  cn_requestedAt :: date
  cn_approved :: bool
  cn_approvedAt :: date

record order =
  o_id :: object_id
  buyer :: object_id
  seller :: object_id
  gig :: "object_id option"
  package :: string
  packageDetails :: package_details
  totalAmount :: rat
  serviceFee :: rat
  netAmount :: rat
  status :: string
  paymentStatus :: string
  paymentIntentId :: string
  stripeSessionId :: "string option"
  deliveryDate :: "date option"
  completedAt :: "date option"
  deliveries :: "delivery list"
  revisions :: "revision list"
  cancellation :: "cancellation option"
  isReviewed_buyer :: bool
  isReviewed_seller :: bool
  autoCompleteAt :: "date option"

subsection \<open>The store\<close>

record db =
  orders :: "order list"
  users :: "user list"
  gigs :: "gig list"
  reviews :: "review list"
  notifications :: "notification list"
  conversations :: "conversation list"

text \<open>\<open>Model.findById\<close> and the write of a loaded document back under its \<open>_id\<close>.\<close>

definition findById :: "('a \<Rightarrow> object_id) \<Rightarrow> object_id \<Rightarrow> 'a list \<Rightarrow> 'a option" where
  "findById ident i xs = find (\<lambda>x. ident x = i) xs"

definition saveDoc :: "('a \<Rightarrow> object_id) \<Rightarrow> 'a \<Rightarrow> 'a list \<Rightarrow> 'a list" where
  "saveDoc ident d xs = map (\<lambda>x. if ident x = ident d then d else x) xs"

text \<open>\<open>Model.findByIdAndUpdate(id, update)\<close>: no document with that id, no change.\<close>

definition findByIdAndUpdate ::
  "('a \<Rightarrow> object_id) \<Rightarrow> object_id \<Rightarrow> ('a \<Rightarrow> 'a) \<Rightarrow> 'a list \<Rightarrow> 'a list" where
  "findByIdAndUpdate ident i f xs = map (\<lambda>x. if ident x = i then f x else x) xs"

section \<open>Notifications (utils/notifications.js)\<close>

text \<open>
  \<open>createNotification\<close> builds a Notification and saves it. Saving validates the
  document against the schema: a \<open>type\<close> outside the enum is rejected and the
  function rethrows. (The other required paths, recipient, title and message, are
  always given by the callers.) The real-time push that follows the save is best
  effort and is not part of the store.
\<close>

definition createNotification :: "notification \<Rightarrow> db \<Rightarrow> (error + notification) \<times> db" where
  "createNotification n s =
     (if n_type n \<in> set notification_types
      then (Inr n, s\<lparr>notifications := notifications s @ [n]\<rparr>)
      else (Inl (HttpError 500 ''Notification validation failed''), s))"

section \<open>Conversations\<close>

text \<open>
  The \<open>pre('save')\<close> hook of the Conversation schema runs before the document is
  written: with a participant list whose length is not 2 it passes an error to
  \<open>next\<close> and nothing is stored.
\<close>

definition conversation_pre_save :: "conversation \<Rightarrow> error + unit" where
  "conversation_pre_save c =
     (if length (c_participants c) \<noteq> 2
      then Inl (HttpError 500 ''Conversation must have exactly 2 participants'')
      else Inr ())"

definition conversation_save :: "conversation \<Rightarrow> db \<Rightarrow> (error + unit) \<times> db" where
  "conversation_save c s =
     (case conversation_pre_save c of
        Inl e \<Rightarrow> (Inl e, s)
      | Inr _ \<Rightarrow>
          (Inr (),
           s\<lparr>conversations :=
               (if findById c_id (c_id c) (conversations s) = None
                then conversations s @ [c]
                else saveDoc c_id c (conversations s))\<rparr>))"

section \<open>Rating aggregation\<close>

text \<open>
  \<open>gigSchema.methods.updateRating\<close> and \<open>userSchema.methods.updateRating\<close>: load the
  reviews of the target, fold their ratings with \<open>reduce\<close>, store mean and count, or
  zero both when there is no review.
\<close>

definition gig_updateRating :: "gig \<Rightarrow> db \<Rightarrow> gig" where
  "gig_updateRating g s =
     (let rs = filter (\<lambda>r. r_gig r = Some (g_id g)) (reviews s) in
      if length rs > 0
      then (let totalRating = foldl (\<lambda>sum r. sum + r_rating r) 0 rs in
            g\<lparr>g_rating := totalRating / of_nat (length rs), g_totalReviews := length rs\<rparr>)
      else g\<lparr>g_rating := 0, g_totalReviews := 0\<rparr>)"

definition user_updateRating :: "user \<Rightarrow> db \<Rightarrow> user" where
  "user_updateRating u s =
     (let rs = filter (\<lambda>r. r_reviewee r = u_id u) (reviews s) in
      if length rs > 0
      then (let totalRating = foldl (\<lambda>sum r. sum + r_rating r) 0 rs in
            u\<lparr>u_rating := totalRating / of_nat (length rs), u_totalReviews := length rs\<rparr>)
      else u\<lparr>u_rating := 0, u_totalReviews := 0\<rparr>)"

text \<open>The arithmetic mean of the spec, with the empty case of the spec: zero.\<close>

definition mean :: "rat list \<Rightarrow> rat" where
  "mean xs = (if xs = [] then 0 else sum_list xs / of_nat (length xs))"

section \<open>Order lifecycle (models/Order.js, routes/orders.js)\<close>

text \<open>
  \<open>orderSchema.methods.scheduleAutoComplete\<close>: the deadline is three days after
  the call, written only for a delivered order that has none yet. In that case the
  method also starts a save of the document and returns its promise.
\<close>

definition scheduleAutoComplete :: "date \<Rightarrow> order \<Rightarrow> order" where
  "scheduleAutoComplete now ord =
     (if status ord = ''delivered'' \<and> autoCompleteAt ord = None
      then ord\<lparr>autoCompleteAt := Some (now + 3 * 24 * 60 * 60 * 1000)\<rparr>
      else ord)"

text \<open>
  Whether \<open>scheduleAutoComplete\<close> starts a save. Its two callers do not await it and
  call \<open>order.save()\<close> themselves right after: while the first save of the document
  is in flight the second is rejected as a parallel save, the handler ends in its
  \<open>catch\<close> block with a 500 and creates no notification; the first save writes the
  document with everything the handler assigned.
\<close>

definition scheduleAutoComplete_saves :: "order \<Rightarrow> bool" where
  "scheduleAutoComplete_saves ord = (status ord = ''delivered'' \<and> autoCompleteAt ord = None)"

text \<open>The object literal \<open>validTransitions\<close> of \<open>PATCH /:id/status\<close>.\<close>

definition validTransitions :: "string \<rightharpoonup> string list" where
  "validTransitions =
     [''pending'' \<mapsto> [''requirements_pending'', ''in_progress'', ''cancelled''],
      ''requirements_pending'' \<mapsto> [''in_progress'', ''cancelled''],
      ''in_progress'' \<mapsto> [''delivered'', ''cancelled''],
      ''delivered'' \<mapsto> [''completed''],
      ''revision_requested'' \<mapsto> [''in_progress'', ''delivered'']]"

text \<open>\<open>validTransitions[order.status]?.includes(status)\<close>\<close>

definition transition_allowed :: "string \<Rightarrow> string \<Rightarrow> bool" where
  "transition_allowed cur req =
     (case validTransitions cur of None \<Rightarrow> False | Some ts \<Rightarrow> req \<in> set ts)"

text \<open>
  The two \<open>$inc\<close> updates that credit a completed order: the seller's earnings and
  completed-order counter, and the gig's order counter.
\<close>

definition credit_seller :: "order \<Rightarrow> db \<Rightarrow> db" where
  "credit_seller ord s =
     s\<lparr>users := findByIdAndUpdate u_id (seller ord)
          (\<lambda>u. u\<lparr>u_totalEarnings := u_totalEarnings u + netAmount ord,
                 u_completedOrders := u_completedOrders u + 1\<rparr>) (users s)\<rparr>"

definition count_gig_order :: "order \<Rightarrow> db \<Rightarrow> db" where
  "count_gig_order ord s =
     (case gig ord of
        None \<Rightarrow> s
      | Some g \<Rightarrow>
          s\<lparr>gigs := findByIdAndUpdate g_id g
               (\<lambda>x. x\<lparr>g_totalOrders := g_totalOrders x + 1\<rparr>) (gigs s)\<rparr>)"

definition order_save :: "order \<Rightarrow> db \<Rightarrow> db" where
  "order_save ord s = s\<lparr>orders := saveDoc o_id ord (orders s)\<rparr>"

text \<open>
  A handler that has written the order and then fails in \<open>createNotification\<close>
  ends in its \<open>catch\<close> block: the reply is a 500, the order stays written.
\<close>

definition notify_then ::
  "notification \<Rightarrow> string \<Rightarrow> order \<Rightarrow> db \<Rightarrow> (error + order) \<times> db" where
  "notify_then n failure ord s =
     (case createNotification n s of
        (Inl e, s') \<Rightarrow> (Inl (HttpError 500 failure), s')
      | (Inr x, s') \<Rightarrow> (Inr ord, s'))"

text \<open>\<open>PATCH /:id/status\<close>, the generic status update of the seller.\<close>

definition update_status ::
  "object_id \<Rightarrow> object_id \<Rightarrow> string \<Rightarrow> date \<Rightarrow> db \<Rightarrow> (error + order) \<times> db" where
  "update_status actor i req now s =
     (case findById o_id i (orders s) of
        None \<Rightarrow> (Inl (HttpError 404 ''Order not found''), s)
      | Some ord \<Rightarrow>
          if seller ord \<noteq> actor
          then (Inl (HttpError 403 ''Only seller can update order status''), s)
          else if \<not> transition_allowed (status ord) req
          then (Inl (HttpError 400
                  (''Cannot transition from '' @ status ord @ '' to '' @ req)), s)
          else
            (let ord1 = ord\<lparr>status := req\<rparr>;
                 ord2 = (if req = ''delivered''
                         then scheduleAutoComplete now (ord1\<lparr>deliveryDate := Some now\<rparr>)
                         else if req = ''completed''
                         then ord1\<lparr>completedAt := Some now\<rparr>
                         else ord1);
                 s1 = (if req = ''completed''
                       then count_gig_order ord2 (credit_seller ord2 s)
                       else s)
             in if req = ''delivered'' \<and>
                   scheduleAutoComplete_saves (ord1\<lparr>deliveryDate := Some now\<rparr>)
                then (Inl (HttpError 500 ''Error updating order status''), order_save ord2 s1)
                else notify_then
                       \<lparr>n_recipient = buyer ord2, n_sender = None,
                        n_type = ''order_'' @ req, n_title = ''Order '' @ req,
                        n_orderId = Some (o_id ord2)\<rparr>
                       ''Error updating order status'' ord2 (order_save ord2 s1)))"

text \<open>\<open>POST /:id/deliver\<close>\<close>

definition deliver ::
  "object_id \<Rightarrow> object_id \<Rightarrow> string \<Rightarrow> string list \<Rightarrow> date \<Rightarrow> db \<Rightarrow> (error + order) \<times> db" where
  "deliver actor i message files now s =
     (case findById o_id i (orders s) of
        None \<Rightarrow> (Inl (HttpError 404 ''Order not found''), s)
      | Some ord \<Rightarrow>
          if seller ord \<noteq> actor
          then (Inl (HttpError 403 ''Only seller can deliver order''), s)
          else if status ord \<noteq> ''in_progress''
          then (Inl (HttpError 400 ''Order must be in progress to deliver''), s)
          else
            (let ord1 = ord\<lparr>deliveries := deliveries ord @
                             [\<lparr>dl_message = message, dl_files = files, dl_deliveredAt = now\<rparr>]\<rparr>;
                 ord2 = scheduleAutoComplete now
                          (ord1\<lparr>status := ''delivered'', deliveryDate := Some now\<rparr>)
             in if scheduleAutoComplete_saves
                     (ord1\<lparr>status := ''delivered'', deliveryDate := Some now\<rparr>)
                then (Inl (HttpError 500 ''Error delivering order''), order_save ord2 s)
                else notify_then
                       \<lparr>n_recipient = buyer ord2, n_sender = None,
                        n_type = ''order_delivered'', n_title = ''Order Delivered'',
                        n_orderId = Some (o_id ord2)\<rparr>
                       ''Error delivering order'' ord2 (order_save ord2 s)))"

text \<open>
  \<open>POST /:id/revision\<close>. \<open>usedRevisions >= availableRevisions\<close> compares a length
  with the optional number \<open>packageDetails.revisions\<close>; against \<open>undefined\<close> the
  comparison is false.
\<close>

definition revisions_exhausted :: "order \<Rightarrow> bool" where
  "revisions_exhausted ord =
     (case pd_revisions (packageDetails ord) of
        None \<Rightarrow> False
      | Some availableRevisions \<Rightarrow> of_nat (length (revisions ord)) \<ge> availableRevisions)"

definition request_revision ::
  "object_id \<Rightarrow> object_id \<Rightarrow> string \<Rightarrow> date \<Rightarrow> db \<Rightarrow> (error + order) \<times> db" where
  "request_revision actor i message now s =
     (case findById o_id i (orders s) of
        None \<Rightarrow> (Inl (HttpError 404 ''Order not found''), s)
      | Some ord \<Rightarrow>
          if buyer ord \<noteq> actor
          then (Inl (HttpError 403 ''Only buyer can request revision''), s)
          else if status ord \<noteq> ''delivered''
          then (Inl (HttpError 400 ''Can only request revision for delivered orders''), s)
          else if revisions_exhausted ord
          then (Inl (HttpError 400 ''No more revisions available for this package''), s)
          else
            (let ord1 = ord\<lparr>revisions := revisions ord @
                             [\<lparr>rv_message = message, rv_requestedAt = now\<rparr>]\<rparr>;
                 ord2 = ord1\<lparr>status := ''revision_requested''\<rparr>
             in notify_then
                  \<lparr>n_recipient = seller ord2, n_sender = None,
                   n_type = ''revision_requested'', n_title = ''Revision Requested'',
                   n_orderId = Some (o_id ord2)\<rparr>
                  ''Error requesting revision'' ord2 (order_save ord2 s)))"

text \<open>\<open>POST /:id/accept\<close>\<close>

definition accept ::
  "object_id \<Rightarrow> object_id \<Rightarrow> date \<Rightarrow> db \<Rightarrow> (error + order) \<times> db" where
  "accept actor i now s =
     (case findById o_id i (orders s) of
        None \<Rightarrow> (Inl (HttpError 404 ''Order not found''), s)
      | Some ord \<Rightarrow>
          if buyer ord \<noteq> actor
          then (Inl (HttpError 403 ''Only buyer can accept order''), s)
          else if status ord \<noteq> ''delivered''
          then (Inl (HttpError 400 ''Can only accept delivered orders''), s)
          else
            (let ord2 = ord\<lparr>status := ''completed'', completedAt := Some now\<rparr>;
                 s1 = count_gig_order ord2 (credit_seller ord2 s)
             in notify_then
                  \<lparr>n_recipient = seller ord2, n_sender = None,
                   n_type = ''order_completed'', n_title = ''Order Completed'',
                   n_orderId = Some (o_id ord2)\<rparr>
                  ''Error accepting order'' ord2 (order_save ord2 s1)))"

text \<open>\<open>POST /:id/cancel\<close>\<close>

definition cancel ::
  "object_id \<Rightarrow> object_id \<Rightarrow> string \<Rightarrow> date \<Rightarrow> db \<Rightarrow> (error + order) \<times> db" where
  "cancel actor i reason now s =
     (case findById o_id i (orders s) of
        None \<Rightarrow> (Inl (HttpError 404 ''Order not found''), s)
      | Some ord \<Rightarrow>
          if \<not> (buyer ord = actor \<or> seller ord = actor)
          then (Inl (HttpError 403 ''Not authorized to cancel this order''), s)
          else if status ord \<in> set [''completed'', ''cancelled'', ''disputed'']
          then (Inl (HttpError 400 ''Cannot cancel order in current status''), s)
          else
            (let ord2 = ord\<lparr>status := ''cancelled'',
                            cancellation := Some \<lparr>cn_reason = reason, cn_requestedBy = actor,
                              cn_requestedAt = now, cn_approved = True, cn_approvedAt = now\<rparr>\<rparr>;
                 recipient = (if buyer ord2 = actor then seller ord2 else buyer ord2)
             in notify_then
                  \<lparr>n_recipient = recipient, n_sender = None,
                   n_type = ''order_cancelled'', n_title = ''Order Cancelled'',
                   n_orderId = Some (o_id ord2)\<rparr>
                  ''Error cancelling order'' ord2 (order_save ord2 s)))"

section \<open>Numbers\<close>

text \<open>
  The arithmetic of JavaScript numbers: IEEE 754 binary64. A finite double is the
  rational it denotes. \<open>double x\<close> is the double nearest to the rational \<open>x\<close>, a tie
  going to the even significand: with \<open>2 ^ e \<le> |x| < 2 ^ (e + 1)\<close> the doubles around
  \<open>x\<close> are the multiples of \<open>2 ^ (e - 52)\<close> (of \<open>2 ^ - 1074\<close> below the normal range).
  Magnitudes from \<open>2 ^ 1024\<close> on, where the code has \<open>Infinity\<close>, are outside this
  model, and so is \<open>NaN\<close>.
\<close>

definition binary_exponent :: "rat \<Rightarrow> int" where
  "binary_exponent x =
     (let (p, q) = quotient_of \<bar>x\<bar>;
          d = int (floorlog 2 (nat p)) - int (floorlog 2 (nat q))
      in if 2 powi d \<le> \<bar>x\<bar> then d else d - 1)"

definition round_half_even :: "rat \<Rightarrow> int" where
  "round_half_even x =
     (let f = \<lfloor>x\<rfloor>; r = x - of_int f
      in if r < 1 / 2 then f else if r > 1 / 2 then f + 1
         else if even f then f else f + 1)"

definition ulp :: "rat \<Rightarrow> rat" where
  "ulp x = 2 powi (max (binary_exponent x) (- 1022) - 52)"

definition double :: "rat \<Rightarrow> rat" where
  "double x = (if x = 0 then 0 else of_int (round_half_even (x / ulp x)) * ulp x)"

text \<open>The operators \<open>*\<close>, \<open>/\<close>, \<open>+\<close> and \<open>-\<close> on numbers: the exact result, rounded.\<close>

definition js_times :: "rat \<Rightarrow> rat \<Rightarrow> rat" where
  "js_times a b = double (a * b)"

definition js_divide :: "rat \<Rightarrow> rat \<Rightarrow> rat" where
  "js_divide a b = double (a / b)"

definition js_plus :: "rat \<Rightarrow> rat \<Rightarrow> rat" where
  "js_plus a b = double (a + b)"

definition js_minus :: "rat \<Rightarrow> rat \<Rightarrow> rat" where
  "js_minus a b = double (a - b)"


definition js_0_2 :: rat where
  "js_0_2 = double (2 / 10)"

text \<open>
  \<open>Math.round\<close>: the nearest integer, a tie going up. Its value is an integer that
  is a double again.
\<close>

definition Math_round :: "rat \<Rightarrow> int" where
  "Math_round x = \<lfloor>x + 1 / 2\<rfloor>"

section \<open>Payments (routes/payments.js)\<close>

text \<open>
  What the payment provider hands over: a checkout session with its id, its
  \<open>payment_status\<close> and its \<open>payment_intent\<close> (null until the provider has one).
\<close>

record session =
  ss_id :: string
  ss_payment_status :: string
  ss_payment_intent :: "string option"

datatype event =
    CheckoutSessionCompleted session
  | PaymentIntentPaymentFailed string
  | OtherEvent string









text \<open>
  The two notifications of a confirmed payment, created together: one to the seller,
  one to the buyer.
\<close>

definition payment_notifications :: "order \<Rightarrow> db \<Rightarrow> (error + unit) \<times> db" where
  "payment_notifications ord s =
     (case createNotification
             \<lparr>n_recipient = seller ord, n_sender = Some (buyer ord), n_type = ''new_order'',
              n_title = ''New Order Received'', n_orderId = Some (o_id ord)\<rparr> s of
        (Inl e, s1) \<Rightarrow> (Inl e, s1)
      | (Inr x, s1) \<Rightarrow>
          (case createNotification
                  \<lparr>n_recipient = buyer ord, n_sender = None, n_type = ''payment_received'',
                   n_title = ''Payment Successful'', n_orderId = Some (o_id ord)\<rparr> s1 of
             (Inl e, s2) \<Rightarrow> (Inl e, s2)
           | (Inr y, s2) \<Rightarrow> (Inr (), s2)))"

text \<open>
  \<open>GET /success/:sessionId\<close>. \<open>retrieve\<close> is the provider's lookup of a session
  (\<open>None\<close> when it throws). A session without a payment intent leaves the required
  path \<open>paymentIntentId\<close> empty and the save fails. The delivery date is
  \<open>deliveryTime\<close> days from now.
\<close>

definition payment_success ::
  "(string \<rightharpoonup> session) \<Rightarrow> string \<Rightarrow> date \<Rightarrow> db \<Rightarrow> (error + order) \<times> db" where
  "payment_success retrieve sessionId now s =
     (case retrieve sessionId of
        None \<Rightarrow> (Inl (HttpError 500 ''Error processing successful payment''), s)
      | Some sess \<Rightarrow>
          if ss_payment_status sess \<noteq> ''paid''
          then (Inl (HttpError 400 ''Payment not completed''), s)
          else
            case find (\<lambda>x. stripeSessionId x = Some sessionId) (orders s) of
              None \<Rightarrow> (Inl (HttpError 404 ''Order not found''), s)
            | Some ord \<Rightarrow>
                (case ss_payment_intent sess of
                   None \<Rightarrow> (Inl (HttpError 500 ''Error processing successful payment''), s)
                 | Some intent \<Rightarrow>
                     (let ord2 = ord\<lparr>paymentStatus := ''paid'',
                                     status := ''requirements_pending'',
                                     paymentIntentId := intent,
                                     deliveryDate := Some (now +
                                       pd_deliveryTime (packageDetails ord) * (24 * 60 * 60 * 1000))\<rparr>
                      in case payment_notifications ord2 (order_save ord2 s) of
                           (Inl e, s') \<Rightarrow>
                             (Inl (HttpError 500 ''Error processing successful payment''), s')
                         | (Inr x, s') \<Rightarrow> (Inr ord2, s'))))"

text \<open>
  \<open>POST /webhook\<close>. The event is \<open>None\<close> when the signature check throws.
\<close>

definition webhook :: "event option \<Rightarrow> db \<Rightarrow> (error + unit) \<times> db" where
  "webhook ev s =
     (case ev of
        None \<Rightarrow> (Inl (HttpError 400 ''Webhook Error''), s)
      | Some (CheckoutSessionCompleted sess) \<Rightarrow>
          (case find (\<lambda>x. stripeSessionId x = Some (ss_id sess)) (orders s) of
             None \<Rightarrow> (Inr (), s)
           | Some ord \<Rightarrow>
               if paymentStatus ord \<noteq> ''paid''
               then
                 (case ss_payment_intent sess of
                    None \<Rightarrow> (Inl (HttpError 500 ''Webhook handler failed''), s)
                  | Some intent \<Rightarrow>
                      (let ord2 = ord\<lparr>paymentStatus := ''paid'',
                                      status := ''requirements_pending'',
                                      paymentIntentId := intent\<rparr>
                       in case payment_notifications ord2 (order_save ord2 s) of
                            (Inl e, s') \<Rightarrow> (Inl (HttpError 500 ''Webhook handler failed''), s')
                          | (Inr x, s') \<Rightarrow> (Inr (), s')))
               else (Inr (), s))
      | Some (PaymentIntentPaymentFailed intent) \<Rightarrow>
          (case find (\<lambda>x. paymentIntentId x = intent) (orders s) of
             None \<Rightarrow> (Inr (), s)
           | Some failedOrder \<Rightarrow>
               (let ord2 = failedOrder\<lparr>paymentStatus := ''failed'', status := ''cancelled''\<rparr>
                in case createNotification
                          \<lparr>n_recipient = buyer ord2, n_sender = None, n_type = ''system'',
                           n_title = ''Payment Failed'', n_orderId = Some (o_id ord2)\<rparr>
                          (order_save ord2 s) of
                     (Inl e, s') \<Rightarrow> (Inl (HttpError 500 ''Webhook handler failed''), s')
                   | (Inr x, s') \<Rightarrow> (Inr (), s')))
      | Some (OtherEvent name) \<Rightarrow> (Inr (), s))"

section \<open>Reviews (routes/reviews.js)\<close>

text \<open>
  The validators of the Review schema that a request can miss: \<open>gig\<close> and
  \<open>comment\<close> are required, \<open>rating\<close> lies between 1 and 5, \<open>comment\<close> has at
  most 1000 characters.
\<close>

definition review_validate :: "review \<Rightarrow> bool" where
  "review_validate r =
     (r_gig r \<noteq> None \<and> 1 \<le> r_rating r \<and> r_rating r \<le> 5 \<and>
      r_comment r \<noteq> [] \<and> length (r_comment r) \<le> 1000)"

text \<open>
  \<open>POST /\<close> of the review routes. After the review and the order are written, the
  gig and the reviewee are loaded and both ratings recomputed; a missing gig or
  reviewee makes the handler throw at that point.
\<close>

definition create_review ::
  "object_id \<Rightarrow> object_id \<Rightarrow> rat \<Rightarrow> string \<Rightarrow> db \<Rightarrow> (error + review) \<times> db" where
  "create_review reviewerId orderId rating comment s =
     (case findById o_id orderId (orders s) of
        None \<Rightarrow> (Inl (HttpError 404 ''Order not found''), s)
      | Some ord \<Rightarrow>
          if status ord \<noteq> ''completed''
          then (Inl (HttpError 400 ''Can only review completed orders''), s)
          else if \<not> (buyer ord = reviewerId) \<and> \<not> (seller ord = reviewerId)
          then (Inl (HttpError 403 ''Not authorized to review this order''), s)
          else
            case find (\<lambda>r. r_order r = orderId \<and> r_reviewer r = reviewerId) (reviews s) of
              Some existingReview \<Rightarrow>
                (Inl (HttpError 400 ''You have already reviewed this order''), s)
            | None \<Rightarrow>
                (let isBuyer = (buyer ord = reviewerId);
                     revieweeId = (if isBuyer then seller ord else buyer ord);
                     rv = \<lparr>r_order = orderId, r_gig = gig ord, r_reviewer = reviewerId,
                           r_reviewee = revieweeId, r_rating = rating, r_comment = comment\<rparr>
                 in if \<not> review_validate rv
                    then (Inl (HttpError 500 ''Error creating review''), s)
                    else
                      (let s1 = s\<lparr>reviews := reviews s @ [rv]\<rparr>;
                           ord2 = (if isBuyer then ord\<lparr>isReviewed_buyer := True\<rparr>
                                   else ord\<lparr>isReviewed_seller := True\<rparr>);
                           s2 = order_save ord2 s1
                       in case (case gig ord of None \<Rightarrow> None
                                | Some g \<Rightarrow> findById g_id g (gigs s2)) of
                            None \<Rightarrow> (Inl (HttpError 500 ''Error creating review''), s2)
                          | Some g \<Rightarrow>
                              (let s3 = s2\<lparr>gigs := saveDoc g_id (gig_updateRating g s2) (gigs s2)\<rparr>
                               in case findById u_id revieweeId (users s3) of
                                    None \<Rightarrow> (Inl (HttpError 500 ''Error creating review''), s3)
                                  | Some u \<Rightarrow>
                                      (let s4 = s3\<lparr>users :=
                                                   saveDoc u_id (user_updateRating u s3) (users s3)\<rparr>
                                       in case createNotification
                                                 \<lparr>n_recipient = revieweeId, n_sender = Some reviewerId,
                                                  n_type = ''review_received'',
                                                  n_title = ''New Review Received'',
                                                  n_orderId = Some orderId\<rparr> s4 of
                                            (Inl e, s') \<Rightarrow>
                                              (Inl (HttpError 500 ''Error creating review''), s')
                                          | (Inr x, s') \<Rightarrow> (Inr rv, s'))))))"

section \<open>Requests against the store\<close>

text \<open>
  Every request of the application that writes an existing order, with the inputs the
  handler reads: the authenticated user, the path and body parameters, the clock, and
  for the payment routes what the provider answers.
\<close>

datatype request =
    UpdateStatus object_id object_id string date
  | Deliver object_id object_id string "string list" date
  | RequestRevision object_id object_id string date
  | Accept object_id object_id date
  | Cancel object_id object_id string date
  | PaymentSuccess "string \<rightharpoonup> session" string date
  | Webhook "event option"
  | CreateReview object_id object_id rat string

fun handle :: "request \<Rightarrow> db \<Rightarrow> db" where
  "handle (UpdateStatus actor i req now) s = snd (update_status actor i req now s)"
| "handle (Deliver actor i message files now) s = snd (deliver actor i message files now s)"
| "handle (RequestRevision actor i message now) s = snd (request_revision actor i message now s)"
| "handle (Accept actor i now) s = snd (accept actor i now s)"
| "handle (Cancel actor i reason now) s = snd (cancel actor i reason now s)"
| "handle (PaymentSuccess retrieve sessionId now) s = snd (payment_success retrieve sessionId now s)"
| "handle (Webhook ev) s = snd (webhook ev s)"
| "handle (CreateReview reviewerId orderId rating comment) s =
     snd (create_review reviewerId orderId rating comment s)"

text \<open>A history of requests, served one after the other.\<close>

fun serve :: "request list \<Rightarrow> db \<Rightarrow> db" where
  "serve [] s = s"
| "serve (r # rs) s = serve rs (handle r s)"

text \<open>Saving conversations one after the other; a rejected save changes nothing.\<close>

fun conversation_saves :: "conversation list \<Rightarrow> db \<Rightarrow> db" where
  "conversation_saves [] s = s"
| "conversation_saves (c # cs) s = conversation_saves cs (snd (conversation_save c s))"

section \<open>The specification's tables\<close>

text \<open>
  The transition table of the specification, section 4.1 (current status, allowed
  next status); the terminal statuses have no row.
\<close>

definition spec_transition_table :: "(string \<times> string) list" where
  "spec_transition_table =
     [(''pending'', ''requirements_pending''), (''pending'', ''in_progress''),
      (''pending'', ''cancelled''),
      (''requirements_pending'', ''in_progress''), (''requirements_pending'', ''cancelled''),
      (''in_progress'', ''delivered''), (''in_progress'', ''cancelled''),
      (''delivered'', ''completed''), (''delivered'', ''revision_requested''),
      (''delivered'', ''cancelled''),
      (''revision_requested'', ''in_progress''), (''revision_requested'', ''delivered'')]"

text \<open>The notification types the specification names for order transitions.\<close>

definition spec_transition_notification_types :: "string list" where
  "spec_transition_notification_types =
     [''new_order'', ''order_delivered'', ''order_completed'', ''order_cancelled'',
      ''revision_requested'', ''payment_received'']"

text \<open>Rounding to two decimals, a tie going up, as the specification's \<open>round(x, 2)\<close>.\<close>

definition round2 :: "rat \<Rightarrow> rat" where
  "round2 x = of_int \<lfloor>x * 100 + 1 / 2\<rfloor> / 100"

section \<open>A sample store\<close>

text \<open>
  The scenario of the specification: a gig whose basic package costs 150 and allows
  one revision, its seller (user 2) and a buyer (user 1).
\<close>

definition sample_details :: package_details where
  "sample_details =
     \<lparr>pd_title = ''Logo design'', pd_price = 150, pd_deliveryTime = 3, pd_revisions = Some 1\<rparr>"

definition sample_gig :: gig where
  "sample_gig =
     \<lparr>g_id = 10, g_freelancer = 2, g_pricing = [''basic'' \<mapsto> sample_details],
      g_rating = 0, g_totalReviews = 0, g_totalOrders = 0,
      g_isActive = True, g_isPaused = False\<rparr>"

definition sample_user :: "object_id \<Rightarrow> string \<Rightarrow> user" where
  "sample_user i name =
     \<lparr>u_id = i, u_username = name, u_rating = 0, u_totalReviews = 0,
      u_totalEarnings = 0, u_completedOrders = 0\<rparr>"

definition sample_db :: "order list \<Rightarrow> db" where
  "sample_db os =
     \<lparr>orders = os, users = [sample_user 1 ''buyer'', sample_user 2 ''seller''],
      gigs = [sample_gig], reviews = [], notifications = [], conversations = []\<rparr>"


definition sample_paid :: session where
  "sample_paid =
     \<lparr>ss_id = ''cs_test_1'', ss_payment_status = ''paid'', ss_payment_intent = Some ''pi_1''\<rparr>"

text \<open>The order that the buyer's checkout of the basic package stores.\<close>

definition sample_order :: order where
  "sample_order =
     \<lparr>o_id = 100, buyer = 1, seller = 2, gig = Some 10,
      package = ''basic'', packageDetails = sample_details,
      totalAmount = 315 / 2, serviceFee = 15 / 2, netAmount = 120,
      status = ''pending'', paymentStatus = ''pending'',
      paymentIntentId = ''cs_test_1'', stripeSessionId = Some ''cs_test_1'',
      deliveryDate = None, completedAt = None, deliveries = [], revisions = [],
      cancellation = None, isReviewed_buyer = False, isReviewed_seller = False,
      autoCompleteAt = None\<rparr>"



text \<open>The sample order once paid, in a given status.\<close>

definition sample_order_in :: "string \<Rightarrow> order" where
  "sample_order_in st =
     sample_order\<lparr>paymentStatus := ''paid'', status := st, paymentIntentId := ''pi_1''\<rparr>"

definition sample_review :: "object_id \<Rightarrow> rat \<Rightarrow> review" where
  "sample_review ordId rating =
     \<lparr>r_order = ordId, r_gig = Some 10, r_reviewer = 1, r_reviewee = 2,
      r_rating = rating, r_comment = ''ok''\<rparr>"

definition sample_conversation :: "object_id \<Rightarrow> object_id list \<Rightarrow> conversation" where
  "sample_conversation i ps = \<lparr>c_id = i, c_participants = ps, c_order = None, c_gig = None\<rparr>"

section \<open>How a request may rewrite an order\<close>

text \<open>
  The relation between an order document as a handler loads it and as the handler
  writes it back, as far as the later proofs need it: the id and the package details
  stay, revision requests are only ever appended, and a deadline for automatic
  completion, once set, stays as it is.
\<close>

definition evolves :: "order \<Rightarrow> order \<Rightarrow> bool" where
  "evolves y x =
     (o_id x = o_id y \<and> packageDetails x = packageDetails y \<and>
      length (revisions y) \<le> length (revisions x) \<and>
      (autoCompleteAt y = None \<or> autoCompleteAt x = autoCompleteAt y))"

text \<open>
  One request writes at most one loaded order back under its id.
\<close>

definition order_write :: "order list \<Rightarrow> order list \<Rightarrow> bool" where
  "order_write os os' =
     (os' = os \<or> (\<exists>ord ord2. ord \<in> set os \<and> evolves ord ord2 \<and> os' = saveDoc o_id ord2 os))"

section \<open>Facts about the store\<close>

lemma find_saveDoc:
  "find P xs = Some d0 \<Longrightarrow> P d \<Longrightarrow> ident d = ident d0 \<Longrightarrow>
   find P (saveDoc ident d xs) = Some d"
  unfolding saveDoc_def
  by (induction xs) (auto split: if_splits)

lemma findById_saveDoc:
  assumes "findById ident i xs = Some d0" and "ident d = ident d0"
  shows "findById ident i (saveDoc ident d xs) = Some d"
proof -
  from assms(1) have "ident d0 = i"
    by (auto simp: findById_def find_Some_iff)
  with assms show ?thesis
    unfolding findById_def by (intro find_saveDoc) auto
qed

lemma findById_update:
  "findById ident i xs = Some d0 \<Longrightarrow> ident (f d0) = i \<Longrightarrow>
   findById ident i (findByIdAndUpdate ident i f xs) = Some (f d0)"
  unfolding findById_def findByIdAndUpdate_def
  by (induction xs) (auto split: if_splits)

lemma set_saveDoc:
  "x \<in> set (saveDoc ident d xs) \<Longrightarrow> x = d \<or> x \<in> set xs"
  unfolding saveDoc_def by auto


lemma sample_order_fields:
  "sample_order = \<lparr>o_id = 100, buyer = 1, seller = 2, gig = Some 10,
      package = ''basic'', packageDetails = sample_details,
      totalAmount = 315 / 2, serviceFee = 15 / 2, netAmount = 120,
      status = ''pending'', paymentStatus = ''pending'',
      paymentIntentId = ''cs_test_1'', stripeSessionId = Some ''cs_test_1'',
      deliveryDate = None, completedAt = None, deliveries = [], revisions = [],
      cancellation = None, isReviewed_buyer = False, isReviewed_seller = False,
      autoCompleteAt = None\<rparr>"
  by (rule sample_order_def)

lemma payment_notifications_ok:
  "payment_notifications ord s =
     (Inr (), s\<lparr>notifications := notifications s @
        [\<lparr>n_recipient = seller ord, n_sender = Some (buyer ord), n_type = ''new_order'',
          n_title = ''New Order Received'', n_orderId = Some (o_id ord)\<rparr>,
         \<lparr>n_recipient = buyer ord, n_sender = None, n_type = ''payment_received'',
          n_title = ''Payment Successful'', n_orderId = Some (o_id ord)\<rparr>]\<rparr>)"
  by (simp add: payment_notifications_def createNotification_def notification_types_def)

section \<open>Conversations have two participants\<close>

lemma conversation_save_inv:
  assumes "\<forall>x \<in> set (conversations s). length (c_participants x) = 2"
  shows "\<forall>x \<in> set (conversations (snd (conversation_save c s))).
           length (c_participants x) = 2"
  using assms
  by (auto simp: conversation_save_def conversation_pre_save_def
      dest!: set_saveDoc split: if_splits)

lemma conversation_saves_inv:
  "\<forall>x \<in> set (conversations s). length (c_participants x) = 2 \<Longrightarrow>
   \<forall>x \<in> set (conversations (conversation_saves cs s)). length (c_participants x) = 2"
proof (induction cs arbitrary: s)
  case Nil
  then show ?case by simp
next
  case (Cons c cs)
  from Cons.prems
  have "\<forall>x \<in> set (conversations (snd (conversation_save c s))).
          length (c_participants x) = 2"
    by (rule conversation_save_inv)
  then show ?case using Cons.IH by simp
qed

text \<open>
  C9. Saving a conversation whose participant list has a length other than 2 fails and
  leaves the store as it was; a conversation with two participants is written; and a
  store in which every conversation has two participants keeps that property over any
  sequence of saves.
\<close>

theorem conversation_exactly_two_participants:
  "(length (c_participants c) \<noteq> 2 \<longrightarrow>
      conversation_save c s =
        (Inl (HttpError 500 ''Conversation must have exactly 2 participants''), s)) \<and>
   (length (c_participants c) = 2 \<longrightarrow>
      fst (conversation_save c s) = Inr () \<and>
      c \<in> set (conversations (snd (conversation_save c s)))) \<and>
   ((\<forall>x \<in> set (conversations s). length (c_participants x) = 2) \<longrightarrow>
      (\<forall>x \<in> set (conversations (conversation_saves cs s)).
          length (c_participants x) = 2))"
proof (intro conjI impI)
  assume "length (c_participants c) \<noteq> 2"
  then show "conversation_save c s =
        (Inl (HttpError 500 ''Conversation must have exactly 2 participants''), s)"
    by (simp add: conversation_save_def conversation_pre_save_def)
next
  assume "length (c_participants c) = 2"
  then show "fst (conversation_save c s) = Inr ()"
    by (simp add: conversation_save_def conversation_pre_save_def)
next
  assume "length (c_participants c) = 2"
  then have "conversations (snd (conversation_save c s))
      = (if findById c_id (c_id c) (conversations s) = None
         then conversations s @ [c] else saveDoc c_id c (conversations s))"
    by (simp add: conversation_save_def conversation_pre_save_def)
  then show "c \<in> set (conversations (snd (conversation_save c s)))"
    by (force simp: findById_def saveDoc_def find_None_iff)
next
  assume "\<forall>x \<in> set (conversations s). length (c_participants x) = 2"
  then show "\<forall>x \<in> set (conversations (conversation_saves cs s)).
      length (c_participants x) = 2"
    by (rule conversation_saves_inv)
qed

theorem conversation_exactly_two_participants_witness:
  "length (c_participants (sample_conversation 7 [1])) \<noteq> 2 \<and>
   conversation_save (sample_conversation 7 [1]) (sample_db []) =
     (Inl (HttpError 500 ''Conversation must have exactly 2 participants''), sample_db []) \<and>
   length (c_participants (sample_conversation 9 [1, 2, 3])) \<noteq> 2 \<and>
   conversation_save (sample_conversation 9 [1, 2, 3]) (sample_db []) =
     (Inl (HttpError 500 ''Conversation must have exactly 2 participants''), sample_db []) \<and>
   length (c_participants (sample_conversation 8 [1, 2])) = 2 \<and>
   sample_conversation 8 [1, 2]
     \<in> set (conversations (snd (conversation_save (sample_conversation 8 [1, 2]) (sample_db [])))) \<and>
   conversations (sample_db []) = [] \<and>
   conversations (conversation_saves
        [sample_conversation 7 [1], sample_conversation 8 [1, 2],
         sample_conversation 9 [1, 2, 3]] (sample_db [])) = [sample_conversation 8 [1, 2]] \<and>
   length (c_participants (sample_conversation 8 [1, 2])) = 2"
  using conversation_exactly_two_participants
          [of "sample_conversation 7 [1]" "sample_db []"
              "[sample_conversation 7 [1], sample_conversation 8 [1, 2],
                sample_conversation 9 [1, 2, 3]]"]
        conversation_exactly_two_participants
          [of "sample_conversation 9 [1, 2, 3]" "sample_db []" "[]"]
        conversation_exactly_two_participants
          [of "sample_conversation 8 [1, 2]" "sample_db []" "[]"]
  by (simp add: sample_conversation_def sample_db_def conversation_save_def
      conversation_pre_save_def findById_def)

section \<open>Rating recomputation\<close>

lemma foldl_rating:
  "foldl (\<lambda>sum r. sum + r_rating r) a rs = a + sum_list (map r_rating rs)"
  by (induction rs arbitrary: a) (simp_all add: add.assoc)

text \<open>
  C7. For a gig and for a user, \<open>updateRating\<close> stores the arithmetic mean of the
  ratings of the target's reviews and their count, and zero for both when the target
  has no review; reviews rated 5, 5, 4 and 2 give the rating 4 and the count 4.
\<close>

theorem rating_recomputation:
  "g_rating (gig_updateRating g s)
     = mean (map r_rating (filter (\<lambda>r. r_gig r = Some (g_id g)) (reviews s))) \<and>
   g_totalReviews (gig_updateRating g s)
     = length (filter (\<lambda>r. r_gig r = Some (g_id g)) (reviews s)) \<and>
   u_rating (user_updateRating u s)
     = mean (map r_rating (filter (\<lambda>r. r_reviewee r = u_id u) (reviews s))) \<and>
   u_totalReviews (user_updateRating u s)
     = length (filter (\<lambda>r. r_reviewee r = u_id u) (reviews s)) \<and>
   (filter (\<lambda>r. r_gig r = Some (g_id g)) (reviews s) = [] \<longrightarrow>
      g_rating (gig_updateRating g s) = 0 \<and> g_totalReviews (gig_updateRating g s) = 0) \<and>
   (filter (\<lambda>r. r_reviewee r = u_id u) (reviews s) = [] \<longrightarrow>
      u_rating (user_updateRating u s) = 0 \<and> u_totalReviews (user_updateRating u s) = 0) \<and>
   (map r_rating (filter (\<lambda>r. r_gig r = Some (g_id g)) (reviews s)) = [5, 5, 4, 2] \<longrightarrow>
      g_rating (gig_updateRating g s) = 4 \<and> g_totalReviews (gig_updateRating g s) = 4) \<and>
   (map r_rating (filter (\<lambda>r. r_reviewee r = u_id u) (reviews s)) = [5, 5, 4, 2] \<longrightarrow>
      u_rating (user_updateRating u s) = 4 \<and> u_totalReviews (user_updateRating u s) = 4)"
proof -
  have g: "g_rating (gig_updateRating g s)
             = mean (map r_rating (filter (\<lambda>r. r_gig r = Some (g_id g)) (reviews s)))"
    and gn: "g_totalReviews (gig_updateRating g s)
             = length (filter (\<lambda>r. r_gig r = Some (g_id g)) (reviews s))"
    by (simp_all add: gig_updateRating_def mean_def Let_def foldl_rating)
  have u: "u_rating (user_updateRating u s)
             = mean (map r_rating (filter (\<lambda>r. r_reviewee r = u_id u) (reviews s)))"
    and un: "u_totalReviews (user_updateRating u s)
             = length (filter (\<lambda>r. r_reviewee r = u_id u) (reviews s))"
    by (simp_all add: user_updateRating_def mean_def Let_def foldl_rating)
  have m: "mean [5, 5, 4, 2] = 4" "mean [] = 0"
    by (simp_all add: mean_def)
  have l: "length xs = 4" if "map r_rating xs = [5, 5, 4, 2]" for xs :: "review list"
  proof -
    from that have "length (map r_rating xs) = length [5, 5, 4, 2 :: rat]" by simp
    then show ?thesis by simp
  qed
  show ?thesis
    unfolding g gn u un using m l by auto
qed

theorem rating_recomputation_witness:
  "map r_rating (filter (\<lambda>r. r_gig r = Some (g_id sample_gig))
       (reviews ((sample_db [])\<lparr>reviews := [sample_review 1 5, sample_review 2 5,
          sample_review 3 4, sample_review 4 2]\<rparr>))) = [5, 5, 4, 2] \<and>
   g_rating (gig_updateRating sample_gig ((sample_db [])\<lparr>reviews := [sample_review 1 5,
          sample_review 2 5, sample_review 3 4, sample_review 4 2]\<rparr>)) = 4 \<and>
   g_totalReviews (gig_updateRating sample_gig ((sample_db [])\<lparr>reviews := [sample_review 1 5,
          sample_review 2 5, sample_review 3 4, sample_review 4 2]\<rparr>)) = 4 \<and>
   u_rating (user_updateRating (sample_user 2 ''seller'') ((sample_db [])\<lparr>reviews :=
          [sample_review 1 5, sample_review 2 5, sample_review 3 4, sample_review 4 2]\<rparr>)) = 4 \<and>
   u_totalReviews (user_updateRating (sample_user 2 ''seller'') ((sample_db [])\<lparr>reviews :=
          [sample_review 1 5, sample_review 2 5, sample_review 3 4, sample_review 4 2]\<rparr>)) = 4 \<and>
   filter (\<lambda>r. r_gig r = Some (g_id sample_gig)) (reviews (sample_db [])) = [] \<and>
   g_rating (gig_updateRating sample_gig (sample_db [])) = 0 \<and>
   g_totalReviews (gig_updateRating sample_gig (sample_db [])) = 0 \<and>
   u_rating (user_updateRating (sample_user 2 ''seller'') (sample_db [])) = 0 \<and>
   u_totalReviews (user_updateRating (sample_user 2 ''seller'') (sample_db [])) = 0"
  using rating_recomputation
          [of sample_gig "(sample_db [])\<lparr>reviews := [sample_review 1 5, sample_review 2 5,
                sample_review 3 4, sample_review 4 2]\<rparr>" "sample_user 2 ''seller''"]
        rating_recomputation [of sample_gig "sample_db []" "sample_user 2 ''seller''"]
  by (simp add: sample_db_def sample_gig_def sample_review_def sample_user_def)

section \<open>Double arithmetic\<close>

text \<open>
  \<open>binary_exponent\<close> is the exponent of the binade of its argument, so \<open>double x\<close>
  is fixed by the binade of \<open>x\<close> and the integer nearest to \<open>x\<close> in units of the last
  place.
\<close>

lemma floorlog2_bounds:
  assumes "0 < (n::int)"
  shows "(2::rat) powi (int (floorlog 2 (nat n)) - 1) \<le> of_int n"
    and "of_int n < (2::rat) powi (int (floorlog 2 (nat n)))"
proof -
  let ?a = "floorlog 2 (nat n)"
  from assms have n: "0 < nat n" by simp
  from floorlog_bounds[where b = 2 and x = "nat n"] n
  have b: "2 ^ (?a - 1) \<le> nat n" "nat n < 2 ^ ?a" by auto
  have a: "0 < ?a" using n by (simp add: floorlog_def)
  have c: "(of_nat (nat n) :: rat) = of_int n" using assms by simp
  have e: "(2::rat) powi (int ?a - 1) = 2 ^ (?a - 1)"
  proof -
    from a have "int ?a - 1 = int (?a - 1)" by linarith
    then show ?thesis by (simp only: power_int_of_nat)
  qed
  from b(1) have "(of_nat (2 ^ (?a - 1)) :: rat) \<le> of_nat (nat n)"
    by (simp only: of_nat_le_iff)
  then have "(2::rat) ^ (?a - 1) \<le> of_int n"
    by (simp only: c of_nat_power of_nat_numeral)
  then show "(2::rat) powi (int ?a - 1) \<le> of_int n" by (simp only: e)
  from b(2) have "(of_nat (nat n) :: rat) < of_nat (2 ^ ?a)"
    by (simp only: of_nat_less_iff)
  then have "of_int n < (2::rat) ^ ?a"
    by (simp only: c of_nat_power of_nat_numeral)
  then show "of_int n < (2::rat) powi (int ?a)" by (simp only: power_int_of_nat)
qed

lemma binary_exponent_bounds:
  assumes "x \<noteq> 0"
  shows "2 powi (binary_exponent x) \<le> \<bar>x\<bar> \<and> \<bar>x\<bar> < 2 powi (binary_exponent x + 1)"
proof -
  obtain p q where pq: "quotient_of \<bar>x\<bar> = (p, q)" by (cases "quotient_of \<bar>x\<bar>")
  then have q: "0 < q" and x: "\<bar>x\<bar> = of_int p / of_int q"
    by (auto dest: quotient_of_denom_pos quotient_of_div)
  from assms have "0 < \<bar>x\<bar>" by simp
  with x q have p: "0 < p" by (simp add: zero_less_divide_iff)
  let ?a = "int (floorlog 2 (nat p))" and ?b = "int (floorlog 2 (nat q))"
  note pb = floorlog2_bounds[OF p] and qb = floorlog2_bounds[OF q]
  have qpos: "(0::rat) < of_int q" using q by simp
  have lo: "2 powi (?a - ?b - 1) < \<bar>x\<bar>"
  proof -
    have "(2::rat) powi (?a - ?b - 1) * of_int q < 2 powi (?a - ?b - 1) * 2 powi ?b"
      using qb(2) by simp
    also have "\<dots> = 2 powi (?a - 1)"
      using power_int_add[of "2::rat" "?a - ?b - 1" ?b] by simp
    also have "\<dots> \<le> of_int p" by (rule pb(1))
    finally show ?thesis unfolding x using qpos by (simp add: pos_less_divide_eq)
  qed
  have hi: "\<bar>x\<bar> < 2 powi (?a - ?b + 1)"
  proof -
    have "(of_int p :: rat) < 2 powi ?a" by (rule pb(2))
    also have "\<dots> = 2 powi (?a - ?b + 1) * 2 powi (?b - 1)"
      using power_int_add[of "2::rat" "?a - ?b + 1" "?b - 1"] by simp
    also have "\<dots> \<le> 2 powi (?a - ?b + 1) * of_int q"
      using qb(1) by simp
    finally show ?thesis unfolding x using qpos by (simp add: pos_divide_less_eq)
  qed
  show ?thesis
  proof (cases "2 powi (?a - ?b) \<le> \<bar>x\<bar>")
    case True
    then have "binary_exponent x = ?a - ?b" by (simp add: binary_exponent_def pq)
    with True hi show ?thesis by simp
  next
    case False
    then have "binary_exponent x = ?a - ?b - 1" by (simp add: binary_exponent_def pq)
    with False lo show ?thesis by simp
  qed
qed

lemma binary_exponent_eqI:
  assumes "2 powi e \<le> \<bar>x\<bar>" "\<bar>x\<bar> < 2 powi (e + 1)"
  shows "binary_exponent x = e"
proof -
  have "\<bar>x\<bar> > 0"
    using assms(1) zero_less_power_int[of "2::rat" e, OF zero_less_numeral] by linarith
  then have "x \<noteq> 0" by simp
  from binary_exponent_bounds[OF this]
  have b: "2 powi (binary_exponent x) \<le> \<bar>x\<bar>" "\<bar>x\<bar> < 2 powi (binary_exponent x + 1)"
    by simp_all
  have 1: "e < binary_exponent x + 1"
  proof (rule ccontr)
    assume "\<not> e < binary_exponent x + 1"
    then have "binary_exponent x + 1 \<le> e" by simp
    from power_int_increasing[OF this, of "2::rat"]
    have "(2::rat) powi (binary_exponent x + 1) \<le> 2 powi e" by simp
    with assms(1) b(2) show False by simp
  qed
  have 2: "binary_exponent x < e + 1"
  proof (rule ccontr)
    assume "\<not> binary_exponent x < e + 1"
    then have "e + 1 \<le> binary_exponent x" by simp
    from power_int_increasing[OF this, of "2::rat"]
    have "(2::rat) powi (e + 1) \<le> 2 powi (binary_exponent x)" by simp
    with assms(2) b(1) show False by simp
  qed
  from 1 2 show ?thesis by simp
qed

lemma round_half_even_eqI:
  assumes "of_int n - 1 / 2 < x" "x < of_int n + 1 / 2"
  shows "round_half_even x = n"
proof (cases "of_int n \<le> x")
  case True
  with assms(2) have f: "\<lfloor>x\<rfloor> = n" by (intro floor_unique) simp_all
  with assms(2) show ?thesis by (simp add: round_half_even_def Let_def)
next
  case False
  with assms(1) have f: "\<lfloor>x\<rfloor> = n - 1" by (intro floor_unique) simp_all
  with assms(1) show ?thesis by (simp add: round_half_even_def Let_def)
qed

lemma double_eqI:
  assumes "2 powi e \<le> \<bar>x\<bar>" "\<bar>x\<bar> < 2 powi (e + 1)" "- 1022 \<le> e"
    and "of_int n - 1 / 2 < x / 2 powi (e - 52)" "x / 2 powi (e - 52) < of_int n + 1 / 2"
  shows "double x = of_int n * 2 powi (e - 52)"
proof -
  have "\<bar>x\<bar> > 0"
    using assms(1) zero_less_power_int[of "2::rat" e, OF zero_less_numeral] by linarith
  then have "x \<noteq> 0" by simp
  moreover have "ulp x = 2 powi (e - 52)"
    using binary_exponent_eqI[OF assms(1,2)] assms(3) by (simp add: ulp_def)
  ultimately show ?thesis
    using round_half_even_eqI[OF assms(4,5)] by (simp add: double_def)
qed


lemma js_0_2_value: "js_0_2 = (3602879701896397 / 18014398509481984)"
  unfolding js_0_2_def
  by (rule double_eqI[where e = "-3" and n = "7205759403792794", THEN trans]) simp_all






















lemma net_80_3_1: "js_times (5650610157466419 / 70368744177664) (3602879701896397 / 18014398509481984) = (4520488125973135 / 281474976710656)"
  unfolding js_times_def
  by (rule double_eqI[where e = "4" and n = "4520488125973135", THEN trans]) simp_all

lemma net_80_3_2: "js_times (4520488125973135 / 281474976710656) 100 = (7063262696833023 / 4398046511104)"
  unfolding js_times_def
  by (rule double_eqI[where e = "10" and n = "7063262696833023", THEN trans]) simp_all

lemma net_80_3_3: "Math_round (7063262696833023 / 4398046511104) = 1606"
  unfolding Math_round_def by (rule floor_unique) simp_all

lemma net_80_3_4: "js_divide (of_int 1606) 100 = (4520488125973135 / 281474976710656)"
  unfolding js_divide_def
  by (rule double_eqI[where e = "4" and n = "4520488125973135", THEN trans]) simp_all

lemma net_80_3_5: "js_minus (5650610157466419 / 70368744177664) (4520488125973135 / 281474976710656) = (4520488125973135 / 70368744177664)"
  unfolding js_minus_def
  by (rule double_eqI[where e = "6" and n = "4520488125973135", THEN trans]) simp_all

lemma net_80_3: "js_minus (5650610157466419 / 70368744177664) (js_divide (of_int (Math_round (js_times (js_times (5650610157466419 / 70368744177664) js_0_2) 100))) 100) = (4520488125973135 / 70368744177664)"
  by (simp only: js_0_2_value net_80_3_1 net_80_3_2 net_80_3_3 net_80_3_4 net_80_3_5)








lemma total_40_3: "js_plus (2835860390359859 / 70368744177664) (4548635623644201 / 2251799813685248) = (5956010507197481 / 140737488355328)"
  unfolding js_plus_def
  by (rule double_eqI[where e = "5" and n = "5956010507197481", THEN trans]) simp_all

lemma net_40_3_1: "js_times (2835860390359859 / 70368744177664) (3602879701896397 / 18014398509481984) = (4537376624575775 / 562949953421312)"
  unfolding js_times_def
  by (rule double_eqI[where e = "3" and n = "4537376624575775", THEN trans]) simp_all

lemma net_40_3_2: "js_times (4537376624575775 / 562949953421312) 100 = 806"
  unfolding js_times_def
  by (rule double_eqI[where e = "9" and n = "7089650975899648", THEN trans]) simp_all

lemma net_40_3_3: "Math_round 806 = 806"
  unfolding Math_round_def by (rule floor_unique) simp_all

lemma net_40_3_4: "js_divide (of_int 806) 100 = (4537376624575775 / 562949953421312)"
  unfolding js_divide_def
  by (rule double_eqI[where e = "3" and n = "4537376624575775", THEN trans]) simp_all

lemma net_40_3_5: "js_minus (2835860390359859 / 70368744177664) (4537376624575775 / 562949953421312) = (2268688312287887 / 70368744177664)"
  unfolding js_minus_def
  by (rule double_eqI[where e = "5" and n = "4537376624575774", THEN trans]) simp_all

lemma net_40_3: "js_minus (2835860390359859 / 70368744177664) (js_divide (of_int (Math_round (js_times (js_times (2835860390359859 / 70368744177664) js_0_2) 100))) 100) = (2268688312287887 / 70368744177664)"
  by (simp only: js_0_2_value net_40_3_1 net_40_3_2 net_40_3_3 net_40_3_4 net_40_3_5)





section \<open>Fees at checkout\<close>














section \<open>The payment webhook is idempotent\<close>

lemma webhook_paid_noop:
  assumes "find (\<lambda>x. stripeSessionId x = Some (ss_id sess)) (orders s) = Some ord"
    and "paymentStatus ord = ''paid''"
  shows "webhook (Some (CheckoutSessionCompleted sess)) s = (Inr (), s)"
  using assms by (simp add: webhook_def)

lemma webhook_unpaid:
  assumes "find (\<lambda>x. stripeSessionId x = Some (ss_id sess)) (orders s) = Some ord"
    and "paymentStatus ord \<noteq> ''paid''" and "ss_payment_intent sess = Some intent"
  shows "orders (snd (webhook (Some (CheckoutSessionCompleted sess)) s))
           = saveDoc o_id (ord\<lparr>paymentStatus := ''paid'', status := ''requirements_pending'',
                                paymentIntentId := intent\<rparr>) (orders s)"
  using assms by (simp add: webhook_def payment_notifications_ok order_save_def Let_def)

lemma sample_webhook:
  "webhook (Some (CheckoutSessionCompleted sample_paid)) (sample_db [sample_order])
     = (Inr (),
        (sample_db [sample_order\<lparr>paymentStatus := ''paid'', status := ''requirements_pending'',
                                  paymentIntentId := ''pi_1''\<rparr>])
        \<lparr>notifications :=
           [\<lparr>n_recipient = 2, n_sender = Some 1, n_type = ''new_order'',
             n_title = ''New Order Received'', n_orderId = Some 100\<rparr>,
            \<lparr>n_recipient = 1, n_sender = None, n_type = ''payment_received'',
             n_title = ''Payment Successful'', n_orderId = Some 100\<rparr>]\<rparr>)"
  by (simp add: webhook_def sample_db_def sample_paid_def sample_order_fields
      payment_notifications_ok order_save_def saveDoc_def)

text \<open>
  C1. Applying the \<open>checkout.session.completed\<close> event a second time leaves the store
  as the first application left it; and for an order whose payment status is already
  \<open>paid\<close> the event changes nothing: payment status, order status, payment reference and
  notifications all stay.
\<close>

theorem webhook_checkout_completed_idempotent:
  "snd (webhook (Some (CheckoutSessionCompleted sess))
          (snd (webhook (Some (CheckoutSessionCompleted sess)) s)))
     = snd (webhook (Some (CheckoutSessionCompleted sess)) s) \<and>
   (\<forall>ord. find (\<lambda>x. stripeSessionId x = Some (ss_id sess)) (orders s) = Some ord \<and>
          paymentStatus ord = ''paid'' \<longrightarrow>
          webhook (Some (CheckoutSessionCompleted sess)) s = (Inr (), s))"
proof (intro conjI allI impI)
  fix ord
  assume "find (\<lambda>x. stripeSessionId x = Some (ss_id sess)) (orders s) = Some ord \<and>
          paymentStatus ord = ''paid''"
  then show "webhook (Some (CheckoutSessionCompleted sess)) s = (Inr (), s)"
    by (simp add: webhook_paid_noop)
next
  let ?ev = "Some (CheckoutSessionCompleted sess)"
  let ?P = "\<lambda>x. stripeSessionId x = Some (ss_id sess)"
  show "snd (webhook ?ev (snd (webhook ?ev s))) = snd (webhook ?ev s)"
  proof (cases "find ?P (orders s)")
    case None
    then show ?thesis by (simp add: webhook_def)
  next
    case found: (Some ord)
    show ?thesis
    proof (cases "paymentStatus ord = ''paid''")
      case True
      with found show ?thesis by (simp add: webhook_paid_noop)
    next
      case False
      show ?thesis
      proof (cases "ss_payment_intent sess")
        case None
        with found False show ?thesis by (simp add: webhook_def)
      next
        case (Some intent)
        let ?ord2 = "ord\<lparr>paymentStatus := ''paid'', status := ''requirements_pending'',
                          paymentIntentId := intent\<rparr>"
        from found have "?P ord" by (auto simp: find_Some_iff)
        then have "?P ?ord2" by simp
        with found have "find ?P (saveDoc o_id ?ord2 (orders s)) = Some ?ord2"
          by (intro find_saveDoc) auto
        then have "find ?P (orders (snd (webhook ?ev s))) = Some ?ord2"
          using webhook_unpaid[OF found False Some] by simp
        from webhook_paid_noop[OF this] show ?thesis by simp
      qed
    qed
  qed
qed

theorem webhook_checkout_completed_idempotent_witness:
  "find (\<lambda>x. stripeSessionId x = Some (ss_id sample_paid))
        (orders (snd (webhook (Some (CheckoutSessionCompleted sample_paid))
                        (sample_db [sample_order]))))
     = Some (sample_order\<lparr>paymentStatus := ''paid'', status := ''requirements_pending'',
                           paymentIntentId := ''pi_1''\<rparr>) \<and>
   paymentStatus (sample_order\<lparr>paymentStatus := ''paid'', status := ''requirements_pending'',
                                paymentIntentId := ''pi_1''\<rparr>) = ''paid'' \<and>
   webhook (Some (CheckoutSessionCompleted sample_paid))
       (snd (webhook (Some (CheckoutSessionCompleted sample_paid)) (sample_db [sample_order])))
     = (Inr (), snd (webhook (Some (CheckoutSessionCompleted sample_paid))
                       (sample_db [sample_order]))) \<and>
   length (notifications
      (snd (webhook (Some (CheckoutSessionCompleted sample_paid))
         (snd (webhook (Some (CheckoutSessionCompleted sample_paid))
            (sample_db [sample_order])))))) = 2"
  using webhook_checkout_completed_idempotent
          [of sample_paid
              "snd (webhook (Some (CheckoutSessionCompleted sample_paid))
                      (sample_db [sample_order]))"]
  by (simp add: sample_webhook) (simp add: sample_db_def sample_paid_def sample_order_fields)

section \<open>The generic status update\<close>

lemma sample_order_in_fields:
  "sample_order_in st = \<lparr>o_id = 100, buyer = 1, seller = 2, gig = Some 10,
      package = ''basic'', packageDetails = sample_details,
      totalAmount = 315 / 2, serviceFee = 15 / 2, netAmount = 120,
      status = st, paymentStatus = ''paid'',
      paymentIntentId = ''pi_1'', stripeSessionId = Some ''cs_test_1'',
      deliveryDate = None, completedAt = None, deliveries = [], revisions = [],
      cancellation = None, isReviewed_buyer = False, isReviewed_seller = False,
      autoCompleteAt = None\<rparr>"
  by (simp add: sample_order_in_def sample_order_fields)

lemma sample_db_notifications: "(sample_db os)\<lparr>notifications := []\<rparr> = sample_db os"
  by (simp add: sample_db_def)

lemma notify_then_ok:
  "n_type n \<in> set notification_types \<Longrightarrow>
   notify_then n failure ord s = (Inr ord, s\<lparr>notifications := notifications s @ [n]\<rparr>)"
  by (simp add: notify_then_def createNotification_def)

lemma notify_then_orders: "orders (snd (notify_then n f ord s)) = orders s"
  by (simp add: notify_then_def createNotification_def)

lemma validTransitions_cases:
  "validTransitions ''pending'' = Some [''requirements_pending'', ''in_progress'', ''cancelled'']"
  "validTransitions ''requirements_pending'' = Some [''in_progress'', ''cancelled'']"
  "validTransitions ''in_progress'' = Some [''delivered'', ''cancelled'']"
  "validTransitions ''delivered'' = Some [''completed'']"
  "validTransitions ''revision_requested'' = Some [''in_progress'', ''delivered'']"
  "cur \<notin> set [''pending'', ''requirements_pending'', ''in_progress'', ''delivered'',
       ''revision_requested''] \<Longrightarrow> validTransitions cur = None"
  by (simp_all add: validTransitions_def)

lemma spec_transition_table_fst:
  "(cur, req) \<in> set spec_transition_table \<Longrightarrow>
   cur \<in> set [''pending'', ''requirements_pending'', ''in_progress'', ''delivered'',
       ''revision_requested'']"
  unfolding spec_transition_table_def by auto

lemma transition_allowed_iff:
  "transition_allowed cur req \<longleftrightarrow>
     (cur, req) \<in> set spec_transition_table \<and>
     (cur, req) \<noteq> (''delivered'', ''revision_requested'') \<and>
     (cur, req) \<noteq> (''delivered'', ''cancelled'')"
proof -
  consider "cur = ''pending''" | "cur = ''requirements_pending''" | "cur = ''in_progress''"
    | "cur = ''delivered''" | "cur = ''revision_requested''"
    | "cur \<notin> set [''pending'', ''requirements_pending'', ''in_progress'', ''delivered'',
       ''revision_requested'']"
    by auto
  then show ?thesis
  proof cases
    case 1
    then show ?thesis
      by (auto simp add: transition_allowed_def validTransitions_cases(1) spec_transition_table_def)
  next
    case 2
    then show ?thesis
      by (auto simp add: transition_allowed_def validTransitions_cases(2) spec_transition_table_def)
  next
    case 3
    then show ?thesis
      by (auto simp add: transition_allowed_def validTransitions_cases(3) spec_transition_table_def)
  next
    case 4
    then show ?thesis
      by (auto simp add: transition_allowed_def validTransitions_cases(4) spec_transition_table_def)
  next
    case 5
    then show ?thesis
      by (auto simp add: transition_allowed_def validTransitions_cases(5) spec_transition_table_def)
  next
    case 6
    then have "validTransitions cur = None" by (rule validTransitions_cases(6))
    moreover from 6 have "(cur, req) \<notin> set spec_transition_table"
      using spec_transition_table_fst by blast
    ultimately show ?thesis by (simp add: transition_allowed_def)
  qed
qed

lemma update_status_rejected:
  assumes "findById o_id i (orders s) = Some ord" "seller ord = actor"
    "\<not> transition_allowed (status ord) req"
  shows "update_status actor i req now s =
     (Inl (HttpError 400 (''Cannot transition from '' @ status ord @ '' to '' @ req)), s)"
  using assms by (simp add: update_status_def)

lemma update_status_allowed:
  assumes "findById o_id i (orders s) = Some ord" "seller ord = actor"
    "transition_allowed (status ord) req"
  shows "\<exists>ord'. findById o_id i (orders (snd (update_status actor i req now s))) = Some ord' \<and>
           status ord' = req"
proof -
  let ?ord1 = "ord\<lparr>status := req\<rparr>"
  let ?ord2 = "(if req = ''delivered''
                then scheduleAutoComplete now (?ord1\<lparr>deliveryDate := Some now\<rparr>)
                else if req = ''completed''
                then ?ord1\<lparr>completedAt := Some now\<rparr>
                else ?ord1)"
  have id: "o_id ?ord2 = o_id ord" and st: "status ?ord2 = req"
    by (simp_all add: scheduleAutoComplete_def)
  have o: "orders (snd (update_status actor i req now s)) = saveDoc o_id ?ord2 (orders s)"
    using assms
    by (simp add: update_status_def Let_def notify_then_orders order_save_def
        count_gig_order_def credit_seller_def split: option.splits)
  show ?thesis unfolding o using findById_saveDoc[OF assms(1) id] st by blast
qed

lemma cancel_stored:
  assumes "findById o_id i (orders s) = Some ord" "buyer ord = actor \<or> seller ord = actor"
    "status ord \<notin> set [''completed'', ''cancelled'', ''disputed'']"
  shows "\<exists>ord'. findById o_id i (orders (snd (cancel actor i reason now s))) = Some ord' \<and>
           status ord' = ''cancelled''"
proof -
  let ?ord2 = "ord\<lparr>status := ''cancelled'',
                    cancellation := Some \<lparr>cn_reason = reason, cn_requestedBy = actor,
                      cn_requestedAt = now, cn_approved = True, cn_approvedAt = now\<rparr>\<rparr>"
  have id: "o_id ?ord2 = o_id ord" and st: "status ?ord2 = ''cancelled''"
    by simp_all
  have o: "orders (snd (cancel actor i reason now s)) = saveDoc o_id ?ord2 (orders s)"
    using assms by (simp add: cancel_def Let_def notify_then_orders order_save_def)
  show ?thesis unfolding o using findById_saveDoc[OF assms(1) id] st by blast
qed

lemma request_revision_stored:
  assumes "findById o_id i (orders s) = Some ord" "buyer ord = actor"
    "status ord = ''delivered''" "\<not> revisions_exhausted ord"
  shows "\<exists>ord'. findById o_id i (orders (snd (request_revision actor i message now s)))
                  = Some ord' \<and>
           status ord' = ''revision_requested''"
proof -
  let ?ord2 = "ord\<lparr>revisions := revisions ord @ [\<lparr>rv_message = message, rv_requestedAt = now\<rparr>],
                    status := ''revision_requested''\<rparr>"
  have id: "o_id ?ord2 = o_id ord" and st: "status ?ord2 = ''revision_requested''"
    by simp_all
  have o: "orders (snd (request_revision actor i message now s)) = saveDoc o_id ?ord2 (orders s)"
    using assms by (simp add: request_revision_def Let_def notify_then_orders order_save_def)
  show ?thesis unfolding o using findById_saveDoc[OF assms(1) id] st by blast
qed

text \<open>
  C2, as the code has it. The relation that the generic status update accepts is the
  table of section 4.1 without its two entries \<open>delivered \<rightarrow> revision_requested\<close> and
  \<open>delivered \<rightarrow> cancelled\<close>; nothing leaves \<open>completed\<close>, \<open>cancelled\<close> or
  \<open>disputed\<close>. For the seller of an order, a request outside the relation is answered
  with the 400 \<open>Cannot transition from ... to ...\<close> and the store is unchanged; a
  request inside it writes the requested status. The two entries that the relation
  lacks are performed by the dedicated operations: on a delivered order, the cancel
  operation of the buyer or the seller stores the status \<open>cancelled\<close>, and the revision
  request of the buyer, while revisions remain, stores the status \<open>revision_requested\<close>.
\<close>

theorem update_status_transition_table:
  "(transition_allowed cur req \<longleftrightarrow>
      (cur, req) \<in> set spec_transition_table \<and>
      (cur, req) \<noteq> (''delivered'', ''revision_requested'') \<and>
      (cur, req) \<noteq> (''delivered'', ''cancelled'')) \<and>
   (cur \<in> set [''completed'', ''cancelled'', ''disputed''] \<longrightarrow> \<not> transition_allowed cur req) \<and>
   (findById o_id i (orders s) = Some ord \<and> seller ord = actor \<and>
      \<not> transition_allowed (status ord) req \<longrightarrow>
        update_status actor i req now s =
          (Inl (HttpError 400 (''Cannot transition from '' @ status ord @ '' to '' @ req)), s)) \<and>
   (findById o_id i (orders s) = Some ord \<and> seller ord = actor \<and>
      transition_allowed (status ord) req \<longrightarrow>
        (\<exists>ord'. findById o_id i (orders (snd (update_status actor i req now s))) = Some ord' \<and>
                status ord' = req)) \<and>
   (findById o_id i (orders s) = Some ord \<and> status ord = ''delivered'' \<and>
      (buyer ord = actor \<or> seller ord = actor) \<longrightarrow>
        (\<exists>ord'. findById o_id i (orders (snd (cancel actor i reason now s))) = Some ord' \<and>
                status ord' = ''cancelled'')) \<and>
   (findById o_id i (orders s) = Some ord \<and> status ord = ''delivered'' \<and>
      buyer ord = actor \<and> \<not> revisions_exhausted ord \<longrightarrow>
        (\<exists>ord'. findById o_id i (orders (snd (request_revision actor i message now s)))
                  = Some ord' \<and>
                status ord' = ''revision_requested''))"
proof (intro conjI impI)
  show "transition_allowed cur req \<longleftrightarrow>
      (cur, req) \<in> set spec_transition_table \<and>
      (cur, req) \<noteq> (''delivered'', ''revision_requested'') \<and>
      (cur, req) \<noteq> (''delivered'', ''cancelled'')"
    by (rule transition_allowed_iff)
next
  assume "cur \<in> set [''completed'', ''cancelled'', ''disputed'']"
  then show "\<not> transition_allowed cur req"
    by (auto simp: transition_allowed_def validTransitions_def)
next
  assume "findById o_id i (orders s) = Some ord \<and> seller ord = actor \<and>
      \<not> transition_allowed (status ord) req"
  then show "update_status actor i req now s =
          (Inl (HttpError 400 (''Cannot transition from '' @ status ord @ '' to '' @ req)), s)"
    by (simp add: update_status_rejected)
next
  assume "findById o_id i (orders s) = Some ord \<and> seller ord = actor \<and>
      transition_allowed (status ord) req"
  then show "\<exists>ord'. findById o_id i (orders (snd (update_status actor i req now s))) = Some ord' \<and>
                status ord' = req"
    by (simp add: update_status_allowed)
next
  assume "findById o_id i (orders s) = Some ord \<and> status ord = ''delivered'' \<and>
      (buyer ord = actor \<or> seller ord = actor)"
  then have "findById o_id i (orders s) = Some ord" "buyer ord = actor \<or> seller ord = actor"
    "status ord \<notin> set [''completed'', ''cancelled'', ''disputed'']"
    by simp_all
  then show "\<exists>ord'. findById o_id i (orders (snd (cancel actor i reason now s))) = Some ord' \<and>
                status ord' = ''cancelled''"
    by (rule cancel_stored)
next
  assume "findById o_id i (orders s) = Some ord \<and> status ord = ''delivered'' \<and>
      buyer ord = actor \<and> \<not> revisions_exhausted ord"
  then have "findById o_id i (orders s) = Some ord" "buyer ord = actor"
    "status ord = ''delivered''" "\<not> revisions_exhausted ord"
    by simp_all
  then show "\<exists>ord'. findById o_id i (orders (snd (request_revision actor i message now s)))
                  = Some ord' \<and>
                status ord' = ''revision_requested''"
    by (rule request_revision_stored)
qed

theorem update_status_transition_table_witness:
  "''completed'' \<in> set [''completed'', ''cancelled'', ''disputed''] \<and>
   \<not> transition_allowed ''completed'' ''in_progress'' \<and>
   findById o_id 100 (orders (sample_db [sample_order_in ''completed'']))
     = Some (sample_order_in ''completed'') \<and>
   seller (sample_order_in ''completed'') = 2 \<and>
   update_status 2 100 ''in_progress'' 0 (sample_db [sample_order_in ''completed''])
     = (Inl (HttpError 400 ''Cannot transition from completed to in_progress''),
        sample_db [sample_order_in ''completed'']) \<and>
   findById o_id 100 (orders (sample_db [sample_order_in ''in_progress'']))
     = Some (sample_order_in ''in_progress'') \<and>
   seller (sample_order_in ''in_progress'') = 2 \<and>
   transition_allowed (status (sample_order_in ''in_progress'')) ''delivered'' \<and>
   (\<exists>ord'. findById o_id 100 (orders (snd (update_status 2 100 ''delivered'' 0
               (sample_db [sample_order_in ''in_progress''])))) = Some ord' \<and>
           status ord' = ''delivered'') \<and>
   findById o_id 100 (orders (sample_db [sample_order_in ''delivered'']))
     = Some (sample_order_in ''delivered'') \<and>
   status (sample_order_in ''delivered'') = ''delivered'' \<and>
   buyer (sample_order_in ''delivered'') = 1 \<and>
   \<not> revisions_exhausted (sample_order_in ''delivered'') \<and>
   (\<exists>ord'. findById o_id 100 (orders (snd (cancel 2 100 ''no longer needed'' 0
               (sample_db [sample_order_in ''delivered''])))) = Some ord' \<and>
           status ord' = ''cancelled'') \<and>
   (\<exists>ord'. findById o_id 100 (orders (snd (request_revision 1 100 ''more contrast'' 0
               (sample_db [sample_order_in ''delivered''])))) = Some ord' \<and>
           status ord' = ''revision_requested'')"
proof -
  have h: "findById o_id 100 (orders (sample_db [sample_order_in st])) = Some (sample_order_in st)"
    "seller (sample_order_in st) = 2" "status (sample_order_in st) = st"
    "buyer (sample_order_in st) = 1" "\<not> revisions_exhausted (sample_order_in st)" for st
    by (simp_all add: sample_db_def sample_order_in_fields findById_def revisions_exhausted_def
        sample_details_def)
  have a: "transition_allowed ''in_progress'' ''delivered''"
    by (simp add: transition_allowed_def validTransitions_def)
  from update_status_transition_table
         [where cur = "''completed''" and req = "''in_progress''" and i = 100
            and s = "sample_db [sample_order_in ''completed'']"
            and ord = "sample_order_in ''completed''" and actor = 2 and now = 0]
       h a
  have 1: "\<not> transition_allowed ''completed'' ''in_progress''"
    "update_status 2 100 ''in_progress'' 0 (sample_db [sample_order_in ''completed''])
     = (Inl (HttpError 400 ''Cannot transition from completed to in_progress''),
        sample_db [sample_order_in ''completed''])"
    by (simp_all add: spec_transition_table_def)
  from update_status_transition_table
         [where cur = "''in_progress''" and req = "''delivered''" and i = 100
            and s = "sample_db [sample_order_in ''in_progress'']"
            and ord = "sample_order_in ''in_progress''" and actor = 2 and now = 0]
       h a
  have 2: "\<exists>ord'. findById o_id 100 (orders (snd (update_status 2 100 ''delivered'' 0
               (sample_db [sample_order_in ''in_progress''])))) = Some ord' \<and>
           status ord' = ''delivered''"
    by simp
  from update_status_transition_table
         [where i = 100 and s = "sample_db [sample_order_in ''delivered'']"
            and ord = "sample_order_in ''delivered''" and actor = 2 and now = 0
            and reason = "''no longer needed''"]
       h
  have 3: "\<exists>ord'. findById o_id 100 (orders (snd (cancel 2 100 ''no longer needed'' 0
               (sample_db [sample_order_in ''delivered''])))) = Some ord' \<and>
           status ord' = ''cancelled''"
    by simp
  from update_status_transition_table
         [where i = 100 and s = "sample_db [sample_order_in ''delivered'']"
            and ord = "sample_order_in ''delivered''" and actor = 1 and now = 0
            and message = "''more contrast''"]
       h
  have 4: "\<exists>ord'. findById o_id 100 (orders (snd (request_revision 1 100 ''more contrast'' 0
               (sample_db [sample_order_in ''delivered''])))) = Some ord' \<and>
           status ord' = ''revision_requested''"
    by simp
  from 1 2 3 4 h a show ?thesis by simp
qed

text \<open>
  C2 as the specification states it does not hold: \<open>delivered \<rightarrow> cancelled\<close> is an
  entry of the table of section 4.1, and the generic status update rejects it.
\<close>

theorem update_status_rejects_table_entry:
  "(''delivered'', ''cancelled'') \<in> set spec_transition_table \<and>
   update_status 2 100 ''cancelled'' 0 (sample_db [sample_order_in ''delivered''])
     = (Inl (HttpError 400 ''Cannot transition from delivered to cancelled''),
        sample_db [sample_order_in ''delivered''])"
  by (simp add: spec_transition_table_def update_status_def sample_db_def findById_def
      sample_order_in_fields transition_allowed_def validTransitions_def)

text \<open>
  C8 at a failing input. The seller moves a paid order from \<open>requirements_pending\<close> to
  \<open>in_progress\<close>: the order is written with the new status, the notification type
  \<open>order_in_progress\<close> is not in the enum of the Notification schema, no notification is
  stored and the reply is a 500.
\<close>

theorem update_status_in_progress_not_notified:
  "update_status 2 100 ''in_progress'' 0 (sample_db [sample_order_in ''requirements_pending''])
     = (Inl (HttpError 500 ''Error updating order status''),
        sample_db [sample_order_in ''in_progress'']) \<and>
   notifications (sample_db [sample_order_in ''in_progress'']) = [] \<and>
   ''order_in_progress'' \<notin> set notification_types \<and>
   transition_allowed ''requirements_pending'' ''in_progress''"
  by (simp add: update_status_def sample_db_def findById_def
      sample_order_in_fields transition_allowed_def validTransitions_def
      notify_then_def createNotification_def notification_types_def order_save_def saveDoc_def)

section \<open>The success route against the webhook\<close>

lemma payment_success_ok:
  assumes "retrieve sessionId = Some sess" "ss_payment_status sess = ''paid''"
    "find (\<lambda>x. stripeSessionId x = Some sessionId) (orders s) = Some ord"
    "ss_payment_intent sess = Some intent"
  shows "snd (payment_success retrieve sessionId now s) =
     s\<lparr>orders := saveDoc o_id
          (ord\<lparr>paymentStatus := ''paid'', status := ''requirements_pending'',
               paymentIntentId := intent,
               deliveryDate := Some (now +
                 pd_deliveryTime (packageDetails ord) * (24 * 60 * 60 * 1000))\<rparr>) (orders s),
        notifications := notifications s @
          [\<lparr>n_recipient = seller ord, n_sender = Some (buyer ord), n_type = ''new_order'',
            n_title = ''New Order Received'', n_orderId = Some (o_id ord)\<rparr>,
           \<lparr>n_recipient = buyer ord, n_sender = None, n_type = ''payment_received'',
            n_title = ''Payment Successful'', n_orderId = Some (o_id ord)\<rparr>]\<rparr>"
  using assms
  by (simp add: payment_success_def payment_notifications_ok order_save_def Let_def)

lemma sample_success:
  assumes "stripeSessionId ord = Some ''cs_test_1''"
  shows "snd (payment_success [''cs_test_1'' \<mapsto> sample_paid] ''cs_test_1'' now
              ((sample_db [ord])\<lparr>notifications := ns\<rparr>)) =
     (sample_db [ord\<lparr>paymentStatus := ''paid'', status := ''requirements_pending'',
               paymentIntentId := ''pi_1'',
               deliveryDate := Some (now +
                 pd_deliveryTime (packageDetails ord) * (24 * 60 * 60 * 1000))\<rparr>])
        \<lparr>notifications := ns @
          [\<lparr>n_recipient = seller ord, n_sender = Some (buyer ord), n_type = ''new_order'',
            n_title = ''New Order Received'', n_orderId = Some (o_id ord)\<rparr>,
           \<lparr>n_recipient = buyer ord, n_sender = None, n_type = ''payment_received'',
            n_title = ''Payment Successful'', n_orderId = Some (o_id ord)\<rparr>]\<rparr>"
proof -
  have "snd (payment_success [''cs_test_1'' \<mapsto> sample_paid] ''cs_test_1'' now
              ((sample_db [ord])\<lparr>notifications := ns\<rparr>)) = 
      ((sample_db [ord])\<lparr>notifications := ns\<rparr>)\<lparr>orders := saveDoc o_id
          (ord\<lparr>paymentStatus := ''paid'', status := ''requirements_pending'',
               paymentIntentId := ''pi_1'',
               deliveryDate := Some (now +
                 pd_deliveryTime (packageDetails ord) * (24 * 60 * 60 * 1000))\<rparr>) (orders ((sample_db [ord])\<lparr>notifications := ns\<rparr>)),
        notifications := notifications ((sample_db [ord])\<lparr>notifications := ns\<rparr>) @
          [\<lparr>n_recipient = seller ord, n_sender = Some (buyer ord), n_type = ''new_order'',
            n_title = ''New Order Received'', n_orderId = Some (o_id ord)\<rparr>,
           \<lparr>n_recipient = buyer ord, n_sender = None, n_type = ''payment_received'',
            n_title = ''Payment Successful'', n_orderId = Some (o_id ord)\<rparr>]\<rparr>"
    by (rule payment_success_ok[where sess = sample_paid])
       (simp_all add: sample_paid_def sample_db_def assms)
  then show ?thesis by (simp add: sample_db_def saveDoc_def)
qed

text \<open>
  C4 at a failing input. After the webhook has confirmed the payment (two
  notifications), the success route for the same session writes the order again and
  stores two more notifications; called for an order that has meanwhile been delivered,
  it sets the status back to \<open>requirements_pending\<close>, where the webhook leaves the
  order alone.
\<close>

theorem payment_success_repeats_webhook:
  "length (notifications (serve [Webhook (Some (CheckoutSessionCompleted sample_paid))]
      (sample_db [sample_order]))) = 2 \<and>
   length (notifications (serve [Webhook (Some (CheckoutSessionCompleted sample_paid)),
        PaymentSuccess [''cs_test_1'' \<mapsto> sample_paid] ''cs_test_1'' 0]
      (sample_db [sample_order]))) = 4 \<and>
   map status (orders (serve [PaymentSuccess [''cs_test_1'' \<mapsto> sample_paid] ''cs_test_1'' 0]
      (sample_db [sample_order_in ''delivered'']))) = [''requirements_pending''] \<and>
   map status (orders (serve [Webhook (Some (CheckoutSessionCompleted sample_paid))]
      (sample_db [sample_order_in ''delivered'']))) = [''delivered'']"
proof (intro conjI)
  let ?hook = "Webhook (Some (CheckoutSessionCompleted sample_paid))"
  let ?success = "PaymentSuccess [''cs_test_1'' \<mapsto> sample_paid] ''cs_test_1'' 0"
  have a: "stripeSessionId (sample_order\<lparr>paymentStatus := ''paid'',
              status := ''requirements_pending'', paymentIntentId := ''pi_1''\<rparr>)
             = Some ''cs_test_1''"
    and b: "stripeSessionId (sample_order_in ''delivered'') = Some ''cs_test_1''"
    by (simp_all add: sample_order_fields sample_order_in_def)
  show "length (notifications (serve [?hook] (sample_db [sample_order]))) = 2"
    by (simp add: sample_webhook)
  have "length (notifications (snd (payment_success [''cs_test_1'' \<mapsto> sample_paid] ''cs_test_1'' 0
          (snd (webhook (Some (CheckoutSessionCompleted sample_paid))
             (sample_db [sample_order])))))) = 4"
    unfolding sample_webhook snd_conv sample_success[OF a] by simp
  then show "length (notifications (serve [?hook, ?success] (sample_db [sample_order]))) = 4"
    by simp
  have "map status (orders (snd (payment_success [''cs_test_1'' \<mapsto> sample_paid] ''cs_test_1'' 0
          ((sample_db [sample_order_in ''delivered''])\<lparr>notifications := []\<rparr>))))
        = [''requirements_pending'']"
    unfolding sample_success[OF b] by (simp add: sample_db_def)
  then show "map status (orders (serve [?success] (sample_db [sample_order_in ''delivered''])))
      = [''requirements_pending'']"
    by (simp add: sample_db_notifications)
  have w: "webhook (Some (CheckoutSessionCompleted sample_paid))
             (sample_db [sample_order_in ''delivered''])
      = (Inr (), sample_db [sample_order_in ''delivered''])"
    by (rule webhook_paid_noop[where ord = "sample_order_in ''delivered''"])
       (simp_all add: sample_db_def sample_paid_def sample_order_in_def sample_order_fields)
  show "map status (orders (serve [?hook] (sample_db [sample_order_in ''delivered''])))
      = [''delivered'']"
    by (simp add: w) (simp add: sample_db_def sample_order_in_def)
qed


section \<open>Accepting a delivery\<close>

lemma round2_30: "round2 30 = 30"
proof -
  have "\<lfloor>(of_int 3000 :: rat) + 1 / 2\<rfloor> = 3000" by linarith
  then show ?thesis by (simp add: round2_def)
qed

lemma accept_ok:
  assumes "findById o_id i (orders s) = Some ord" "buyer ord = actor"
    "status ord = ''delivered''"
  shows "accept actor i now s =
     (Inr (ord\<lparr>status := ''completed'', completedAt := Some now\<rparr>),
      (order_save (ord\<lparr>status := ''completed'', completedAt := Some now\<rparr>)
         (count_gig_order ord (credit_seller ord s)))
      \<lparr>notifications := notifications s @
          [\<lparr>n_recipient = seller ord, n_sender = None,
            n_type = ''order_completed'', n_title = ''Order Completed'',
            n_orderId = Some (o_id ord)\<rparr>]\<rparr>)"
proof -
  have c: "credit_seller (ord\<lparr>status := ''completed'', completedAt := Some now\<rparr>) s = credit_seller ord s"
    by (simp add: credit_seller_def)
  have g: "\<And>s. count_gig_order (ord\<lparr>status := ''completed'', completedAt := Some now\<rparr>) s = count_gig_order ord s"
    by (simp add: count_gig_order_def)
  have n: "notifications (order_save (ord\<lparr>status := ''completed'', completedAt := Some now\<rparr>)
         (count_gig_order ord (credit_seller ord s))) = notifications s"
    by (simp add: order_save_def count_gig_order_def credit_seller_def split: option.splits)
  show ?thesis
    using assms
    by (simp add: accept_def Let_def c g notify_then_ok notification_types_def n)
qed

text \<open>
  C5. When the buyer accepts a delivered order, the order is stored as \<open>completed\<close>
  with \<open>completedAt\<close> set to the time of the call, the seller's earnings grow by the
  order's stored net amount and the seller's completed-order counter by one, and the
  gig's order counter grows by one; for an order of price 150 whose net amount was
  computed at checkout the earnings grow by 120.
\<close>

theorem accept_credits_seller:
  assumes "findById o_id i (orders s) = Some ord"
    and "buyer ord = actor"
    and "status ord = ''delivered''"
    and "findById u_id (seller ord) (users s) = Some u"
    and "gig ord = Some gid"
    and "findById g_id gid (gigs s) = Some g"
  shows "fst (accept actor i now s) = Inr (ord\<lparr>status := ''completed'', completedAt := Some now\<rparr>) \<and>
    findById o_id i (orders (snd (accept actor i now s)))
      = Some (ord\<lparr>status := ''completed'', completedAt := Some now\<rparr>) \<and>
    findById u_id (seller ord) (users (snd (accept actor i now s)))
      = Some (u\<lparr>u_totalEarnings := u_totalEarnings u + netAmount ord,
                 u_completedOrders := u_completedOrders u + 1\<rparr>) \<and>
    findById g_id gid (gigs (snd (accept actor i now s)))
      = Some (g\<lparr>g_totalOrders := g_totalOrders g + 1\<rparr>) \<and>
    (pd_price (packageDetails ord) = 150 \<and>
     netAmount ord = pd_price (packageDetails ord) - round2 (pd_price (packageDetails ord) * (20 / 100))
       \<longrightarrow> findById u_id (seller ord) (users (snd (accept actor i now s)))
      = Some (u\<lparr>u_totalEarnings := u_totalEarnings u + 120,
                 u_completedOrders := u_completedOrders u + 1\<rparr>))"
proof -
  let ?ord2 = "ord\<lparr>status := ''completed'', completedAt := Some now\<rparr>"
  let ?s' = "snd (accept actor i now s)"
  note ok = accept_ok[OF assms(1-3), of now]
  have o: "orders ?s' = saveDoc o_id ?ord2 (orders s)"
    unfolding ok by (simp add: order_save_def count_gig_order_def credit_seller_def split: option.splits)
  have us: "users ?s' = findByIdAndUpdate u_id (seller ord)
          (\<lambda>u. u\<lparr>u_totalEarnings := u_totalEarnings u + netAmount ord,
                 u_completedOrders := u_completedOrders u + 1\<rparr>) (users s)"
    unfolding ok by (simp add: order_save_def count_gig_order_def credit_seller_def split: option.splits)
  have gs: "gigs ?s' = findByIdAndUpdate g_id gid
               (\<lambda>x. x\<lparr>g_totalOrders := g_totalOrders x + 1\<rparr>) (gigs s)"
    unfolding ok using assms(5) by (simp add: order_save_def count_gig_order_def credit_seller_def)
  have uid: "u_id u = seller ord" using assms(4) by (auto simp: findById_def find_Some_iff)
  have gid: "g_id g = gid" using assms(6) by (auto simp: findById_def find_Some_iff)
  have 1: "fst (accept actor i now s) = Inr ?ord2" unfolding ok by simp
  have 2: "findById o_id i (orders ?s') = Some ?ord2"
    unfolding o by (rule findById_saveDoc[OF assms(1)]) simp
  have 3: "findById u_id (seller ord) (users ?s')
      = Some (u\<lparr>u_totalEarnings := u_totalEarnings u + netAmount ord,
                 u_completedOrders := u_completedOrders u + 1\<rparr>)"
    unfolding us using findById_update[OF assms(4), of "\<lambda>u. u\<lparr>u_totalEarnings := u_totalEarnings u + netAmount ord,
                 u_completedOrders := u_completedOrders u + 1\<rparr>"] uid by simp
  have 4: "findById g_id gid (gigs ?s') = Some (g\<lparr>g_totalOrders := g_totalOrders g + 1\<rparr>)"
    unfolding gs using findById_update[OF assms(6), of "\<lambda>x. x\<lparr>g_totalOrders := g_totalOrders x + 1\<rparr>"] gid by simp
  have r: "(150::rat) - round2 (150 * (20 / 100)) = 120"
    by (simp add: round2_30)
  show ?thesis
    using 1 2 3 4 r by simp
qed

theorem accept_credits_seller_witness:
  "findById o_id 100 (orders (sample_db [sample_order_in ''delivered''])) = Some (sample_order_in ''delivered'') \<and>
   buyer (sample_order_in ''delivered'') = 1 \<and>
   status (sample_order_in ''delivered'') = ''delivered'' \<and>
   findById u_id (seller (sample_order_in ''delivered'')) (users (sample_db [sample_order_in ''delivered'']))
     = Some (sample_user 2 ''seller'') \<and>
   gig (sample_order_in ''delivered'') = Some 10 \<and>
   findById g_id 10 (gigs (sample_db [sample_order_in ''delivered''])) = Some sample_gig \<and>
   pd_price (packageDetails (sample_order_in ''delivered'')) = 150 \<and>
   netAmount (sample_order_in ''delivered'') = 150 - round2 (150 * (20 / 100)) \<and>
   fst (accept 1 100 5000 (sample_db [sample_order_in ''delivered'']))
     = Inr ((sample_order_in ''delivered'')\<lparr>status := ''completed'', completedAt := Some 5000\<rparr>) \<and>
   findById u_id 2 (users (snd (accept 1 100 5000 (sample_db [sample_order_in ''delivered'']))))
     = Some ((sample_user 2 ''seller'')\<lparr>u_totalEarnings := 120, u_completedOrders := 1\<rparr>) \<and>
   findById g_id 10 (gigs (snd (accept 1 100 5000 (sample_db [sample_order_in ''delivered'']))))
     = Some (sample_gig\<lparr>g_totalOrders := 1\<rparr>)"
proof -
  have h: "findById o_id 100 (orders (sample_db [sample_order_in ''delivered''])) = Some (sample_order_in ''delivered'')"
   "buyer (sample_order_in ''delivered'') = 1"
   "status (sample_order_in ''delivered'') = ''delivered''"
   "findById u_id (seller (sample_order_in ''delivered'')) (users (sample_db [sample_order_in ''delivered'']))
     = Some (sample_user 2 ''seller'')"
   "gig (sample_order_in ''delivered'') = Some 10"
   "findById g_id 10 (gigs (sample_db [sample_order_in ''delivered''])) = Some sample_gig"
    by (simp_all add: sample_db_def sample_order_in_fields findById_def sample_user_def sample_gig_def)
  have p: "pd_price (packageDetails (sample_order_in ''delivered'')) = 150"
    "netAmount (sample_order_in ''delivered'') = 150 - round2 (150 * (20 / 100))"
    by (simp_all add: sample_order_in_fields sample_details_def round2_30)
  have sl: "seller (sample_order_in ''delivered'') = 2"
    by (simp add: sample_order_in_fields)
  from accept_credits_seller[OF h, of 5000] h p
  show ?thesis
    by (simp add: sample_user_def sample_gig_def sl round2_30)
qed


section \<open>What the requests keep of an order\<close>

lemma evolves_refl: "evolves x x"
  by (simp add: evolves_def)

lemma evolves_trans: "evolves x y \<Longrightarrow> evolves y z \<Longrightarrow> evolves x z"
  by (auto simp: evolves_def)

lemma order_write_refl: "order_write os os"
  by (simp add: order_write_def)

lemma order_write_find:
  assumes "find P os = Some ord" "evolves ord ord2"
  shows "order_write os (saveDoc o_id ord2 os)"
proof -
  from assms(1) have "ord \<in> set os" by (auto simp: find_Some_iff)
  with assms(2) show ?thesis unfolding order_write_def by blast
qed

lemma order_write_findById:
  "findById o_id i os = Some ord \<Longrightarrow> evolves ord ord2 \<Longrightarrow>
   order_write os (saveDoc o_id ord2 os)"
  unfolding findById_def by (rule order_write_find)

lemma order_write_evolves:
  assumes "order_write os os'" "x \<in> set os'"
  shows "\<exists>y \<in> set os. evolves y x"
  using assms unfolding order_write_def
  by (auto dest!: set_saveDoc intro: evolves_refl)

lemma order_write_ids:
  assumes "order_write os os'"
  shows "map o_id os' = map o_id os"
  using assms unfolding order_write_def saveDoc_def
  by (auto simp: evolves_def)

lemma orders_credit_seller: "orders (credit_seller ord s) = orders s"
  by (simp add: credit_seller_def)

lemma orders_count_gig_order: "orders (count_gig_order ord s) = orders s"
  by (simp add: count_gig_order_def split: option.splits)

lemma orders_order_save: "orders (order_save ord s) = saveDoc o_id ord (orders s)"
  by (simp add: order_save_def)

lemma orders_createNotification: "orders (snd (createNotification n s)) = orders s"
  by (simp add: createNotification_def)

lemma orders_payment_notifications: "orders (snd (payment_notifications ord s)) = orders s"
  by (simp add: payment_notifications_ok)

lemmas orders_simps = orders_credit_seller orders_count_gig_order orders_order_save
  notify_then_orders orders_createNotification orders_payment_notifications

lemma update_status_write: "order_write (orders s) (orders (snd (update_status actor i req now s)))"
proof (cases "findById o_id i (orders s)")
  case None
  then show ?thesis by (simp add: update_status_def order_write_refl)
next
  case (Some ord)
  show ?thesis
  proof (cases "seller ord \<noteq> actor \<or> \<not> transition_allowed (status ord) req")
    case True
    with Some show ?thesis by (auto simp: update_status_def order_write_refl)
  next
    case False
    let ?ord2 = "(if req = ''delivered''
                then scheduleAutoComplete now (ord\<lparr>status := req, deliveryDate := Some now\<rparr>)
                else if req = ''completed''
                then ord\<lparr>status := req, completedAt := Some now\<rparr>
                else ord\<lparr>status := req\<rparr>)"
    have e: "evolves ord ?ord2"
      by (simp add: evolves_def scheduleAutoComplete_def)
    have "orders (snd (update_status actor i req now s)) = saveDoc o_id ?ord2 (orders s)"
      using Some False by (simp add: update_status_def Let_def orders_simps)
    then show ?thesis using order_write_findById[OF Some e] by simp
  qed
qed

lemma deliver_write: "order_write (orders s) (orders (snd (deliver actor i message files now s)))"
proof (cases "findById o_id i (orders s)")
  case None
  then show ?thesis by (simp add: deliver_def order_write_refl)
next
  case (Some ord)
  show ?thesis
  proof (cases "seller ord \<noteq> actor \<or> status ord \<noteq> ''in_progress''")
    case True
    with Some show ?thesis by (auto simp: deliver_def order_write_refl)
  next
    case False
    let ?ord2 = "scheduleAutoComplete now
                          (ord\<lparr>deliveries := deliveries ord @
                             [\<lparr>dl_message = message, dl_files = files, dl_deliveredAt = now\<rparr>],
                             status := ''delivered'', deliveryDate := Some now\<rparr>)"
    have e: "evolves ord ?ord2"
      by (simp add: evolves_def scheduleAutoComplete_def)
    have "orders (snd (deliver actor i message files now s)) = saveDoc o_id ?ord2 (orders s)"
      using Some False by (simp add: deliver_def Let_def orders_simps)
    then show ?thesis using order_write_findById[OF Some e] by simp
  qed
qed

lemma request_revision_write:
  "order_write (orders s) (orders (snd (request_revision actor i message now s)))"
proof (cases "findById o_id i (orders s)")
  case None
  then show ?thesis by (simp add: request_revision_def order_write_refl)
next
  case (Some ord)
  show ?thesis
  proof (cases "buyer ord \<noteq> actor \<or> status ord \<noteq> ''delivered'' \<or> revisions_exhausted ord")
    case True
    with Some show ?thesis by (auto simp: request_revision_def order_write_refl)
  next
    case False
    let ?ord2 = "ord\<lparr>revisions := revisions ord @
                             [\<lparr>rv_message = message, rv_requestedAt = now\<rparr>],
                     status := ''revision_requested''\<rparr>"
    have e: "evolves ord ?ord2"
      by (simp add: evolves_def)
    have "orders (snd (request_revision actor i message now s)) = saveDoc o_id ?ord2 (orders s)"
      using Some False by (simp add: request_revision_def Let_def orders_simps)
    then show ?thesis using order_write_findById[OF Some e] by simp
  qed
qed

lemma accept_write: "order_write (orders s) (orders (snd (accept actor i now s)))"
proof (cases "findById o_id i (orders s)")
  case None
  then show ?thesis by (simp add: accept_def order_write_refl)
next
  case (Some ord)
  show ?thesis
  proof (cases "buyer ord \<noteq> actor \<or> status ord \<noteq> ''delivered''")
    case True
    with Some show ?thesis by (auto simp: accept_def order_write_refl)
  next
    case False
    let ?ord2 = "ord\<lparr>status := ''completed'', completedAt := Some now\<rparr>"
    have e: "evolves ord ?ord2"
      by (simp add: evolves_def)
    have "orders (snd (accept actor i now s)) = saveDoc o_id ?ord2 (orders s)"
      using Some False by (simp add: accept_def Let_def orders_simps)
    then show ?thesis using order_write_findById[OF Some e] by simp
  qed
qed

lemma cancel_write: "order_write (orders s) (orders (snd (cancel actor i reason now s)))"
proof (cases "findById o_id i (orders s)")
  case None
  then show ?thesis by (simp add: cancel_def order_write_refl)
next
  case (Some ord)
  show ?thesis
  proof (cases "\<not> (buyer ord = actor \<or> seller ord = actor) \<or>
                status ord \<in> set [''completed'', ''cancelled'', ''disputed'']")
    case True
    with Some show ?thesis by (auto simp: cancel_def order_write_refl)
  next
    case False
    let ?ord2 = "ord\<lparr>status := ''cancelled'',
                            cancellation := Some \<lparr>cn_reason = reason, cn_requestedBy = actor,
                              cn_requestedAt = now, cn_approved = True, cn_approvedAt = now\<rparr>\<rparr>"
    have e: "evolves ord ?ord2"
      by (simp add: evolves_def)
    have "orders (snd (cancel actor i reason now s)) = saveDoc o_id ?ord2 (orders s)"
      using Some False by (simp add: cancel_def Let_def orders_simps)
    then show ?thesis using order_write_findById[OF Some e] by simp
  qed
qed

lemma payment_success_write:
  "order_write (orders s) (orders (snd (payment_success retrieve sessionId now s)))"
proof (cases "\<exists>sess ord intent. retrieve sessionId = Some sess \<and> ss_payment_status sess = ''paid'' \<and>
    find (\<lambda>x. stripeSessionId x = Some sessionId) (orders s) = Some ord \<and>
    ss_payment_intent sess = Some intent")
  case True
  then obtain sess ord intent where h: "retrieve sessionId = Some sess"
    "ss_payment_status sess = ''paid''"
    "find (\<lambda>x. stripeSessionId x = Some sessionId) (orders s) = Some ord"
    "ss_payment_intent sess = Some intent" by blast
  let ?ord2 = "ord\<lparr>paymentStatus := ''paid'', status := ''requirements_pending'',
               paymentIntentId := intent,
               deliveryDate := Some (now +
                 pd_deliveryTime (packageDetails ord) * (24 * 60 * 60 * 1000))\<rparr>"
  have e: "evolves ord ?ord2" by (simp add: evolves_def)
  show ?thesis
    unfolding payment_success_ok[of retrieve sessionId sess s ord intent now, OF h]
    using order_write_find[OF h(3) e] by simp
next
  case False
  then have "snd (payment_success retrieve sessionId now s) = s"
    by (auto simp: payment_success_def split: option.splits)
  then show ?thesis by (simp add: order_write_refl)
qed

lemma webhook_write: "order_write (orders s) (orders (snd (webhook ev s)))"
proof (cases ev)
  case None
  then show ?thesis by (simp add: webhook_def order_write_refl)
next
  case (Some e)
  show ?thesis
  proof (cases e)
    case (CheckoutSessionCompleted sess)
    show ?thesis
    proof (cases "find (\<lambda>x. stripeSessionId x = Some (ss_id sess)) (orders s)")
      case None
      with Some CheckoutSessionCompleted show ?thesis by (simp add: webhook_def order_write_refl)
    next
      case found: (Some ord)
      show ?thesis
      proof (cases "paymentStatus ord \<noteq> ''paid'' \<and> ss_payment_intent sess \<noteq> None")
        case True
        then obtain intent where i: "ss_payment_intent sess = Some intent" by auto
        have e: "evolves ord (ord\<lparr>paymentStatus := ''paid'', status := ''requirements_pending'',
                                paymentIntentId := intent\<rparr>)" by (simp add: evolves_def)
        from True have "paymentStatus ord \<noteq> ''paid''" by simp
        from webhook_unpaid[OF found this i] order_write_find[OF found e]
        show ?thesis unfolding Some CheckoutSessionCompleted by simp
      next
        case False
        with Some CheckoutSessionCompleted found show ?thesis
          by (auto simp: webhook_def order_write_refl)
      qed
    qed
  next
    case (PaymentIntentPaymentFailed intent)
    show ?thesis
    proof (cases "find (\<lambda>x. paymentIntentId x = intent) (orders s)")
      case None
      with Some PaymentIntentPaymentFailed show ?thesis by (simp add: webhook_def order_write_refl)
    next
      case found: (Some ord)
      have e: "evolves ord (ord\<lparr>paymentStatus := ''failed'', status := ''cancelled''\<rparr>)"
        by (simp add: evolves_def)
      have "orders (snd (webhook ev s))
          = saveDoc o_id (ord\<lparr>paymentStatus := ''failed'', status := ''cancelled''\<rparr>) (orders s)"
        using Some PaymentIntentPaymentFailed found
        by (simp add: webhook_def Let_def createNotification_def notification_types_def orders_simps)
      then show ?thesis using order_write_find[OF found e] by simp
    qed
  next
    case (OtherEvent x3)
    with Some show ?thesis by (simp add: webhook_def order_write_refl)
  qed
qed


lemma create_review_orders:
  "orders (snd (create_review reviewerId orderId rating comment s)) = orders s \<or>
   (\<exists>ord. findById o_id orderId (orders s) = Some ord \<and>
      (orders (snd (create_review reviewerId orderId rating comment s))
         = saveDoc o_id (ord\<lparr>isReviewed_buyer := True\<rparr>) (orders s) \<or>
       orders (snd (create_review reviewerId orderId rating comment s))
         = saveDoc o_id (ord\<lparr>isReviewed_seller := True\<rparr>) (orders s)))"
  by (simp add: create_review_def Let_def orders_simps createNotification_def
      notification_types_def split: option.splits)

lemma create_review_write:
  "order_write (orders s) (orders (snd (create_review reviewerId orderId rating comment s)))"
proof -
  have e: "evolves ord (ord\<lparr>isReviewed_buyer := True\<rparr>)"
    "evolves ord (ord\<lparr>isReviewed_seller := True\<rparr>)" for ord
    by (simp_all add: evolves_def)
  from create_review_orders[of reviewerId orderId rating comment s] show ?thesis
    using order_write_findById[OF _ e(1)] order_write_findById[OF _ e(2)]
    by (auto simp: order_write_refl)
qed

lemma handle_write: "order_write (orders s) (orders (handle r s))"
  by (cases r)
     (simp_all add: update_status_write deliver_write request_revision_write accept_write
        cancel_write payment_success_write webhook_write create_review_write)

lemma serve_evolves:
  "x \<in> set (orders (serve rs s)) \<Longrightarrow> \<exists>y \<in> set (orders s). evolves y x"
proof (induction rs arbitrary: s x)
  case Nil
  then show ?case by (auto intro: evolves_refl)
next
  case (Cons r rs)
  from Cons.prems have "x \<in> set (orders (serve rs (handle r s)))" by simp
  from Cons.IH[OF this] obtain y where y: "y \<in> set (orders (handle r s))" "evolves y x" by blast
  from order_write_evolves[OF handle_write y(1)] obtain z where
    "z \<in> set (orders s)" "evolves z y" by blast
  with y(2) show ?case by (blast intro: evolves_trans)
qed

lemma serve_ids: "map o_id (orders (serve rs s)) = map o_id (orders s)"
  by (induction rs arbitrary: s) (simp_all add: order_write_ids[OF handle_write])

lemma findById_distinct:
  assumes "distinct (map o_id os)" "findById o_id i os = Some ord" "y \<in> set os" "o_id y = i"
  shows "y = ord"
proof -
  from assms(2) have "ord \<in> set os" "o_id ord = i"
    by (auto simp: findById_def find_Some_iff)
  with assms(1,3,4) show ?thesis
    by (metis distinct_map inj_onD)
qed

lemma findById_ids:
  "map o_id os' = map o_id os \<Longrightarrow> findById o_id i os = Some ord \<Longrightarrow>
   \<exists>ord'. findById o_id i os' = Some ord' \<and> ord' \<in> set os' \<and> o_id ord' = i"
proof -
  assume m: "map o_id os' = map o_id os" and f: "findById o_id i os = Some ord"
  from f have "i \<in> o_id ` set os" by (auto simp: findById_def find_Some_iff)
  then have "i \<in> set (map o_id os')" using m by simp
  then obtain z where "z \<in> set os'" "o_id z = i" by auto
  then have "find (\<lambda>x. o_id x = i) os' \<noteq> None" by (auto simp: find_None_iff)
  then obtain ord' where "find (\<lambda>x. o_id x = i) os' = Some ord'" by blast
  then show ?thesis unfolding findById_def by (auto simp: find_Some_iff)
qed

lemma serve_order:
  assumes "distinct (map o_id (orders s))" "findById o_id i (orders s) = Some ord"
  shows "\<exists>ord'. findById o_id i (orders (serve rs s)) = Some ord' \<and> evolves ord ord'"
proof -
  from findById_ids[OF serve_ids assms(2)] obtain ord' where
    o: "findById o_id i (orders (serve rs s)) = Some ord'" "ord' \<in> set (orders (serve rs s))"
       "o_id ord' = i" by blast
  from serve_evolves[OF o(2)] obtain y where y: "y \<in> set (orders s)" "evolves y ord'" by blast
  then have "o_id y = i" using o(3) by (simp add: evolves_def)
  from findById_distinct[OF assms y(1) this] y(2) o(1) show ?thesis by blast
qed

lemma deliver_ok:
  assumes "findById o_id i (orders s) = Some ord" "seller ord = actor"
    "status ord = ''in_progress''"
  shows "orders (snd (deliver actor i message files now s)) =
     saveDoc o_id
       (scheduleAutoComplete now
          (ord\<lparr>deliveries := deliveries ord @
                  [\<lparr>dl_message = message, dl_files = files, dl_deliveredAt = now\<rparr>],
                status := ''delivered'', deliveryDate := Some now\<rparr>))
       (orders s)"
  using assms
  by (simp add: deliver_def Let_def notify_then_orders order_save_def)

lemma request_revision_ok:
  assumes "findById o_id i (orders s) = Some ord" "buyer ord = actor"
    "status ord = ''delivered''" "\<not> revisions_exhausted ord"
  shows "request_revision actor i message now s =
     (Inr (ord\<lparr>revisions := revisions ord @ [\<lparr>rv_message = message, rv_requestedAt = now\<rparr>],
               status := ''revision_requested''\<rparr>),
      (order_save (ord\<lparr>revisions := revisions ord @
                      [\<lparr>rv_message = message, rv_requestedAt = now\<rparr>],
               status := ''revision_requested''\<rparr>) s)
      \<lparr>notifications := notifications s @
          [\<lparr>n_recipient = seller ord, n_sender = None,
            n_type = ''revision_requested'', n_title = ''Revision Requested'',
            n_orderId = Some (o_id ord)\<rparr>]\<rparr>)"
  using assms
  by (simp add: request_revision_def Let_def notify_then_ok notification_types_def order_save_def)

lemma request_revision_fails:
  assumes "findById o_id i (orders s) = Some ord"
    "pd_revisions (packageDetails ord) = Some 1" "1 \<le> length (revisions ord)"
  shows "\<exists>e. fst (request_revision actor i message now s) = Inl e"
proof -
  from assms(2,3) have "revisions_exhausted ord"
    by (simp add: revisions_exhausted_def)
  with assms(1) show ?thesis
    by (simp add: request_revision_def)
qed


lemma sample_db_lookup:
  "findById o_id 100 (orders (sample_db [ord])) = (if o_id ord = 100 then Some ord else None)"
  "distinct (map o_id (orders (sample_db [ord])))"
  by (simp_all add: sample_db_def findById_def)


section \<open>Revision requests\<close>

text \<open>
  C6. For a delivered order with an allotted revision count, a revision request of the
  buyer fails with the 400 \<open>No more revisions available for this package\<close>, the store
  unchanged, when the number of earlier revision requests has reached the count, and
  otherwise appends one revision record and stores the status \<open>revision_requested\<close>.
  When the package allows one revision and none was requested yet, then after the first
  request every later revision request on the order fails, whatever requests are served
  in between.
\<close>

theorem request_revision_limit:
  assumes "findById o_id i (orders s) = Some ord"
    and "buyer ord = actor"
    and "status ord = ''delivered''"
    and "pd_revisions (packageDetails ord) = Some r"
  shows "(of_nat (length (revisions ord)) \<ge> r \<longrightarrow>
            request_revision actor i message now s =
              (Inl (HttpError 400 ''No more revisions available for this package''), s)) \<and>
         (of_nat (length (revisions ord)) < r \<longrightarrow>
            fst (request_revision actor i message now s) =
              Inr (ord\<lparr>revisions := revisions ord @
                          [\<lparr>rv_message = message, rv_requestedAt = now\<rparr>],
                        status := ''revision_requested''\<rparr>) \<and>
            findById o_id i (orders (snd (request_revision actor i message now s))) =
              Some (ord\<lparr>revisions := revisions ord @
                          [\<lparr>rv_message = message, rv_requestedAt = now\<rparr>],
                        status := ''revision_requested''\<rparr>)) \<and>
         (r = 1 \<and> revisions ord = [] \<and> distinct (map o_id (orders s)) \<longrightarrow>
            (\<forall>rs actor' message' now'. \<exists>e.
               fst (request_revision actor' i message' now'
                      (serve rs (snd (request_revision actor i message now s)))) = Inl e))"
proof (intro conjI impI allI)
  assume "of_nat (length (revisions ord)) \<ge> r"
  with assms show "request_revision actor i message now s =
      (Inl (HttpError 400 ''No more revisions available for this package''), s)"
    by (simp add: request_revision_def revisions_exhausted_def)
next
  let ?ord2 = "ord\<lparr>revisions := revisions ord @ [\<lparr>rv_message = message, rv_requestedAt = now\<rparr>],
                    status := ''revision_requested''\<rparr>"
  assume "of_nat (length (revisions ord)) < r"
  with assms(4) have n: "\<not> revisions_exhausted ord"
    by (simp add: revisions_exhausted_def)
  note ok = request_revision_ok[OF assms(1-3) n, of message now]
  show "fst (request_revision actor i message now s) = Inr ?ord2"
    unfolding ok by simp
  show "findById o_id i (orders (snd (request_revision actor i message now s))) = Some ?ord2"
    unfolding ok using findById_saveDoc[OF assms(1), of ?ord2] by (simp add: order_save_def)
next
  fix rs actor' message' now'
  let ?ord2 = "ord\<lparr>revisions := revisions ord @ [\<lparr>rv_message = message, rv_requestedAt = now\<rparr>],
                    status := ''revision_requested''\<rparr>"
  let ?s1 = "snd (request_revision actor i message now s)"
  assume a: "r = 1 \<and> revisions ord = [] \<and> distinct (map o_id (orders s))"
  with assms(4) have n: "\<not> revisions_exhausted ord"
    by (simp add: revisions_exhausted_def)
  note ok = request_revision_ok[OF assms(1-3) n, of message now]
  have f: "findById o_id i (orders ?s1) = Some ?ord2"
    unfolding ok using findById_saveDoc[OF assms(1), of ?ord2] by (simp add: order_save_def)
  have "map o_id (orders ?s1) = map o_id (orders s)"
    by (rule order_write_ids[OF request_revision_write])
  with a have d: "distinct (map o_id (orders ?s1))" by simp
  from serve_order[OF d f, of rs] obtain ord' where
    o: "findById o_id i (orders (serve rs ?s1)) = Some ord'" "evolves ?ord2 ord'" by blast
  from o(2) assms(4) a have "pd_revisions (packageDetails ord') = Some 1"
    "1 \<le> length (revisions ord')"
    by (simp_all add: evolves_def)
  from request_revision_fails[OF o(1) this]
  show "\<exists>e. fst (request_revision actor' i message' now' (serve rs ?s1)) = Inl e" .
qed

theorem request_revision_limit_witness:
  "findById o_id 100 (orders (sample_db [sample_order_in ''delivered'']))
     = Some (sample_order_in ''delivered'') \<and>
   buyer (sample_order_in ''delivered'') = 1 \<and>
   status (sample_order_in ''delivered'') = ''delivered'' \<and>
   pd_revisions (packageDetails (sample_order_in ''delivered'')) = Some 1 \<and>
   revisions (sample_order_in ''delivered'') = [] \<and>
   distinct (map o_id (orders (sample_db [sample_order_in ''delivered'']))) \<and>
   fst (request_revision 1 100 ''more contrast'' 5000 (sample_db [sample_order_in ''delivered'']))
     = Inr ((sample_order_in ''delivered'')
              \<lparr>revisions := [\<lparr>rv_message = ''more contrast'', rv_requestedAt = 5000\<rparr>],
               status := ''revision_requested''\<rparr>) \<and>
   (\<exists>e. fst (request_revision 1 100 ''again'' 6000
            (serve [] (snd (request_revision 1 100 ''more contrast'' 5000
                              (sample_db [sample_order_in ''delivered''])))))
          = Inl e) \<and>
   (\<exists>e. fst (request_revision 1 100 ''again'' 8000
            (serve [UpdateStatus 2 100 ''delivered'' 7000]
               (snd (request_revision 1 100 ''more contrast'' 5000
                       (sample_db [sample_order_in ''delivered''])))))
          = Inl e) \<and>
   findById o_id 100
       (orders (sample_db [(sample_order_in ''delivered'')
          \<lparr>revisions := [\<lparr>rv_message = ''more contrast'', rv_requestedAt = 5000\<rparr>]\<rparr>]))
     = Some ((sample_order_in ''delivered'')
          \<lparr>revisions := [\<lparr>rv_message = ''more contrast'', rv_requestedAt = 5000\<rparr>]\<rparr>) \<and>
   request_revision 1 100 ''again'' 8000
       (sample_db [(sample_order_in ''delivered'')
          \<lparr>revisions := [\<lparr>rv_message = ''more contrast'', rv_requestedAt = 5000\<rparr>]\<rparr>])
     = (Inl (HttpError 400 ''No more revisions available for this package''),
        sample_db [(sample_order_in ''delivered'')
          \<lparr>revisions := [\<lparr>rv_message = ''more contrast'', rv_requestedAt = 5000\<rparr>]\<rparr>])"
proof -
  let ?o = "sample_order_in ''delivered''"
  let ?o1 = "?o\<lparr>revisions := [\<lparr>rv_message = ''more contrast'', rv_requestedAt = 5000\<rparr>]\<rparr>"
  have h: "findById o_id 100 (orders (sample_db [?o])) = Some ?o"
    "buyer ?o = 1" "status ?o = ''delivered''"
    "pd_revisions (packageDetails ?o) = Some 1"
    by (simp_all add: sample_db_lookup sample_order_in_fields sample_details_def)
  have h1: "findById o_id 100 (orders (sample_db [?o1])) = Some ?o1"
    "buyer ?o1 = 1" "status ?o1 = ''delivered''"
    "pd_revisions (packageDetails ?o1) = Some 1"
    by (simp_all add: sample_db_lookup sample_order_in_fields sample_details_def)
  have e: "revisions ?o = []" "distinct (map o_id (orders (sample_db [?o])))"
    "length (revisions ?o1) = 1"
    by (simp_all add: sample_db_lookup sample_order_in_fields)
  note t = request_revision_limit[OF h, of "''more contrast''" 5000]
  from t e have first: "fst (request_revision 1 100 ''more contrast'' 5000 (sample_db [?o]))
     = Inr (?o\<lparr>revisions := [\<lparr>rv_message = ''more contrast'', rv_requestedAt = 5000\<rparr>],
               status := ''revision_requested''\<rparr>)"
    by simp
  from t e have later: "\<forall>rs actor' message' now'. \<exists>e.
      fst (request_revision actor' 100 message' now'
             (serve rs (snd (request_revision 1 100 ''more contrast'' 5000 (sample_db [?o])))))
        = Inl e"
    by simp
  from request_revision_limit[OF h1, of "''again''" 8000] e
  have limit: "request_revision 1 100 ''again'' 8000 (sample_db [?o1])
     = (Inl (HttpError 400 ''No more revisions available for this package''), sample_db [?o1])"
    by simp
  from h h1 e first later limit show ?thesis by blast
qed


section \<open>The deadline for automatic completion\<close>

lemma sample_redelivery:
  "map (\<lambda>x. (status x, autoCompleteAt x))
     (orders (serve [UpdateStatus 2 100 ''in_progress'' 8000,
                     Deliver 2 100 ''second draft'' [] 9000]
        (sample_db [(sample_order_in ''revision_requested'')
                       \<lparr>autoCompleteAt := Some 259201000\<rparr>])))
   = [(''delivered'', Some 259201000)]"
  by (simp add: update_status_def deliver_def sample_db_def findById_def
      sample_order_in_fields transition_allowed_def validTransitions_def
      notify_then_def createNotification_def notification_types_def order_save_def saveDoc_def
      scheduleAutoComplete_def scheduleAutoComplete_saves_def Let_def)

text \<open>
  C10. \<open>scheduleAutoComplete\<close> changes nothing unless the order is delivered and has no
  deadline yet, and then sets the deadline three days ahead. A delivery sets the deadline
  when there is none and keeps the one there is. Once an order has a deadline, it keeps
  that deadline through every sequence of requests, a delivery after a revision round
  among them.
\<close>

theorem autoCompleteAt_assigned_once:
  "(status ord \<noteq> ''delivered'' \<or> autoCompleteAt ord \<noteq> None \<longrightarrow>
      scheduleAutoComplete now ord = ord) \<and>
   (status ord = ''delivered'' \<and> autoCompleteAt ord = None \<longrightarrow>
      scheduleAutoComplete now ord = ord\<lparr>autoCompleteAt := Some (now + 259200000)\<rparr>) \<and>
   (findById o_id i (orders s) = Some ord \<and> seller ord = actor \<and>
    status ord = ''in_progress'' \<longrightarrow>
      (\<exists>ord'. findById o_id i (orders (snd (deliver actor i message files now s))) = Some ord' \<and>
         status ord' = ''delivered'' \<and>
         autoCompleteAt ord' =
           (case autoCompleteAt ord of None \<Rightarrow> Some (now + 259200000) | Some t \<Rightarrow> Some t))) \<and>
   (distinct (map o_id (orders s)) \<and> findById o_id i (orders s) = Some ord \<and>
    autoCompleteAt ord = Some t \<longrightarrow>
      (\<exists>ord'. findById o_id i (orders (serve rs s)) = Some ord' \<and>
              autoCompleteAt ord' = Some t))"
proof (intro conjI impI)
  assume "status ord \<noteq> ''delivered'' \<or> autoCompleteAt ord \<noteq> None"
  then show "scheduleAutoComplete now ord = ord"
    by (auto simp: scheduleAutoComplete_def)
next
  assume "status ord = ''delivered'' \<and> autoCompleteAt ord = None"
  then show "scheduleAutoComplete now ord = ord\<lparr>autoCompleteAt := Some (now + 259200000)\<rparr>"
    by (simp add: scheduleAutoComplete_def)
next
  let ?ord2 = "scheduleAutoComplete now
             (ord\<lparr>deliveries := deliveries ord @
                     [\<lparr>dl_message = message, dl_files = files, dl_deliveredAt = now\<rparr>],
                   status := ''delivered'', deliveryDate := Some now\<rparr>)"
  assume a: "findById o_id i (orders s) = Some ord \<and> seller ord = actor \<and>
    status ord = ''in_progress''"
  then have ok: "orders (snd (deliver actor i message files now s)) = saveDoc o_id ?ord2 (orders s)"
    by (simp add: deliver_ok)
  have id: "o_id ?ord2 = o_id ord" by (simp add: scheduleAutoComplete_def)
  from a have f: "findById o_id i (orders s) = Some ord" by simp
  have "findById o_id i (orders (snd (deliver actor i message files now s))) = Some ?ord2"
    unfolding ok by (rule findById_saveDoc[OF f id])
  moreover have "status ?ord2 = ''delivered''"
    by (simp add: scheduleAutoComplete_def)
  moreover have "autoCompleteAt ?ord2 =
           (case autoCompleteAt ord of None \<Rightarrow> Some (now + 259200000) | Some t \<Rightarrow> Some t)"
    by (simp add: scheduleAutoComplete_def split: option.splits)
  ultimately show "\<exists>ord'. findById o_id i (orders (snd (deliver actor i message files now s))) = Some ord' \<and>
         status ord' = ''delivered'' \<and>
         autoCompleteAt ord' =
           (case autoCompleteAt ord of None \<Rightarrow> Some (now + 259200000) | Some t \<Rightarrow> Some t)"
    by blast
next
  assume a: "distinct (map o_id (orders s)) \<and> findById o_id i (orders s) = Some ord \<and>
    autoCompleteAt ord = Some t"
  then have d: "distinct (map o_id (orders s))" and f: "findById o_id i (orders s) = Some ord"
    by simp_all
  from serve_order[OF d f, of rs] obtain ord' where
    "findById o_id i (orders (serve rs s)) = Some ord'" "evolves ord ord'" by blast
  with a show "\<exists>ord'. findById o_id i (orders (serve rs s)) = Some ord' \<and>
              autoCompleteAt ord' = Some t"
    by (auto simp: evolves_def)
qed
theorem autoCompleteAt_assigned_once_witness:
  "status (sample_order_in ''in_progress'') \<noteq> ''delivered'' \<and>
   scheduleAutoComplete 1000 (sample_order_in ''in_progress'') = sample_order_in ''in_progress'' \<and>
   status (sample_order_in ''delivered'') = ''delivered'' \<and>
   autoCompleteAt (sample_order_in ''delivered'') = None \<and>
   scheduleAutoComplete 1000 (sample_order_in ''delivered'')
     = (sample_order_in ''delivered'')\<lparr>autoCompleteAt := Some 259201000\<rparr> \<and>
   findById o_id 100 (orders (sample_db [sample_order_in ''in_progress'']))
     = Some (sample_order_in ''in_progress'') \<and>
   seller (sample_order_in ''in_progress'') = 2 \<and>
   (\<exists>ord'. findById o_id 100
              (orders (snd (deliver 2 100 ''first draft'' [] 1000
                              (sample_db [sample_order_in ''in_progress''])))) = Some ord' \<and>
           status ord' = ''delivered'' \<and> autoCompleteAt ord' = Some 259201000) \<and>
   distinct (map o_id (orders (sample_db
      [(sample_order_in ''revision_requested'')\<lparr>autoCompleteAt := Some 259201000\<rparr>]))) \<and>
   findById o_id 100 (orders (sample_db
      [(sample_order_in ''revision_requested'')\<lparr>autoCompleteAt := Some 259201000\<rparr>]))
     = Some ((sample_order_in ''revision_requested'')\<lparr>autoCompleteAt := Some 259201000\<rparr>) \<and>
   autoCompleteAt ((sample_order_in ''revision_requested'')\<lparr>autoCompleteAt := Some 259201000\<rparr>)
     = Some 259201000 \<and>
   (\<exists>ord'. findById o_id 100
              (orders (serve [UpdateStatus 2 100 ''in_progress'' 8000,
                              Deliver 2 100 ''second draft'' [] 9000]
                 (sample_db [(sample_order_in ''revision_requested'')
                                \<lparr>autoCompleteAt := Some 259201000\<rparr>]))) = Some ord' \<and>
           autoCompleteAt ord' = Some 259201000) \<and>
   map (\<lambda>x. (status x, autoCompleteAt x))
     (orders (serve [UpdateStatus 2 100 ''in_progress'' 8000,
                     Deliver 2 100 ''second draft'' [] 9000]
        (sample_db [(sample_order_in ''revision_requested'')
                       \<lparr>autoCompleteAt := Some 259201000\<rparr>])))
   = [(''delivered'', Some 259201000)]"
proof -
  let ?p = "sample_order_in ''in_progress''"
  let ?d = "sample_order_in ''delivered''"
  let ?r = "(sample_order_in ''revision_requested'')\<lparr>autoCompleteAt := Some 259201000\<rparr>"
  have h: "status ?p \<noteq> ''delivered''" "status ?p = ''in_progress''"
    "status ?d = ''delivered''" "autoCompleteAt ?d = None" "autoCompleteAt ?p = None"
    "findById o_id 100 (orders (sample_db [?p])) = Some ?p" "seller ?p = 2"
    "distinct (map o_id (orders (sample_db [?r])))"
    "findById o_id 100 (orders (sample_db [?r])) = Some ?r"
    "autoCompleteAt ?r = Some 259201000"
    by (simp_all add: sample_db_lookup sample_order_in_fields)
  from autoCompleteAt_assigned_once
         [of ?p 1000 100 "sample_db [?p]" 2 "''first draft''" "[]" 0 "[]"] h
  have a: "scheduleAutoComplete 1000 ?p = ?p"
    and b: "\<exists>ord'. findById o_id 100
              (orders (snd (deliver 2 100 ''first draft'' [] 1000 (sample_db [?p])))) = Some ord' \<and>
           status ord' = ''delivered'' \<and> autoCompleteAt ord' = Some 259201000"
    by simp_all
  from autoCompleteAt_assigned_once
         [of ?d 1000 100 "sample_db [?r]" 2 "''x''" "[]" 259201000
             "[UpdateStatus 2 100 ''in_progress'' 8000, Deliver 2 100 ''second draft'' [] 9000]"] h
  have c: "scheduleAutoComplete 1000 ?d = ?d\<lparr>autoCompleteAt := Some 259201000\<rparr>"
    by simp
  from autoCompleteAt_assigned_once
         [of ?r 1000 100 "sample_db [?r]" 2 "''x''" "[]" 259201000
             "[UpdateStatus 2 100 ''in_progress'' 8000, Deliver 2 100 ''second draft'' [] 9000]"] h
  have d: "\<exists>ord'. findById o_id 100
              (orders (serve [UpdateStatus 2 100 ''in_progress'' 8000,
                              Deliver 2 100 ''second draft'' [] 9000] (sample_db [?r]))) = Some ord' \<and>
           autoCompleteAt ord' = Some 259201000"
    by simp
  from h a b c d sample_redelivery show ?thesis by blast
qed

end
